theory Spec2Isabelle
  imports Complex_Main "HOL-Library.Word"
begin

section \<open>CPU voxel ray tracer: the embedding of \<open>src/main.c\<close>\<close>

text \<open>
  Conventions of the embedding.
  \<^item> A C \<open>float\<close> is a \<open>real\<close>: comparisons are those of finite, non-NaN floats, and
    arithmetic is exact (rounding, infinities and NaN are outside the model), except in
    the last part of the definitions, where the ray set-up of one row is modelled a second
    time with every operation rounded to single precision. A float literal stands for its
    decimal value, except \<open>1e-6f\<close> and \<open>1e30f\<close>, which the code compares against.
  \<^item> A C \<open>int\<close> is an \<open>int\<close>: the values the traversal computes stay far inside 32 bits
    (cells move by one per iteration from a cell of the grid, counters are bounded by the
    number of rays times 256). The cast \<open>(int) floorf(v)\<close> is \<open>\<lfloor>v\<rfloor>\<close>; a float outside
    the range of \<open>int\<close>, where the C cast is undefined, is outside the model.
  \<^item> \<open>uint8_t\<close> and \<open>unsigned char\<close> are \<open>8 word\<close>.
  \<^item> The fixed-size arrays \<open>voxels[GRID_SIZE]\<close> and \<open>pixels[IMG_W * IMG_H]\<close> are lists;
    an access outside the declared bound is the fault \<open>OutOfBounds\<close>.
  \<^item> A division whose divisor is a variable goes through \<open>fdiv\<close>, which makes a zero
    divisor the fault \<open>DivByZero\<close> (in C it would produce an infinity or a NaN).
  \<^item> Record fields are global names, so one-letter fields are prefixed:
    \<open>Vector3\<close> has \<open>vx vy vz\<close>, \<open>IVec3\<close> has \<open>ix iy iz\<close>, \<open>Color\<close> has
    \<open>cr cg cb ca\<close>.
\<close>

subsection \<open>Constants and plain data\<close>

definition IMG_W :: int where "IMG_W = 320"
definition IMG_H :: int where "IMG_H = 180"
definition GRID_X :: int where "GRID_X = 24"
definition GRID_Y :: int where "GRID_Y = 16"
definition GRID_Z :: int where "GRID_Z = 24"
definition GRID_SIZE :: int where "GRID_SIZE = GRID_X * GRID_Y * GRID_Z"

record IVec3 =
  ix :: int
  iy :: int
  iz :: int

record Vector3 =
  vx :: real
  vy :: real
  vz :: real

record Color =
  cr :: "8 word"
  cg :: "8 word"
  cb :: "8 word"
  ca :: "8 word"

record FrameStats =
  rays :: int
  rays_entered_grid :: int
  hits :: int
  total_steps :: int
  max_steps :: int
  avg_steps_per_ray :: real
  hit_ratio :: real
  rays_per_sec :: real
  steps_per_sec :: real

record TraceResult =
  hit :: bool
  entered_grid :: bool
  steps :: int
  col :: Vector3

text \<open>
  The global \<open>g_state\<close>. The raylib texture handle \<open>ray_texture\<close> is left out: no
  function modelled here reads or writes it.
\<close>

record AppState =
  pixels :: "Color list"
  voxels :: "8 word list"
  time_s :: real
  freeze_camera :: bool
  request_quit :: bool
  frame_stats :: FrameStats
  frame_ms :: real
  fps_smooth :: real

datatype fault = DivByZero | OutOfBounds

definition LIGHT_DIR :: Vector3 where
  "LIGHT_DIR = \<lparr>vx = 0.46608496, vy = 0.8474272, vz = 0.25422817\<rparr>"

text \<open>
  The threshold \<open>1e-6f\<close> decides branches, so it is the exact value of the float the
  literal denotes, \<open>8796093 / 2 ^ 43\<close> (slightly below \<open>1 / 1000000\<close>): a direction
  component equal to that float is not below the threshold. \<open>1e30f\<close>, the stand-in for
  infinity that the crossing distances are compared with, is likewise the exact value of
  its float, \<open>13234890 * 2 ^ 76\<close>.
\<close>

definition eps_f32 :: real where "eps_f32 = 8796093 / 8796093022208"
definition inf_f32 :: real where "inf_f32 = 1000000015047466219876688855040"

definition fdiv :: "real \<Rightarrow> real \<Rightarrow> fault + real" where
  "fdiv a b = (if b = 0 then Inl DivByZero else Inr (a / b))"

definition clamp_i32 :: "int \<Rightarrow> int \<Rightarrow> int \<Rightarrow> int" where
  "clamp_i32 v lo hi = (if v < lo then lo else if v > hi then hi else v)"

definition clamp_f32 :: "real \<Rightarrow> real \<Rightarrow> real \<Rightarrow> real" where
  "clamp_f32 v lo hi = (if v < lo then lo else if v > hi then hi else v)"

subsection \<open>The voxel grid\<close>

definition voxel_index :: "int \<Rightarrow> int \<Rightarrow> int \<Rightarrow> int" where
  "voxel_index x y z = x + y * GRID_X + z * GRID_X * GRID_Y"

definition inside_grid :: "int \<Rightarrow> int \<Rightarrow> int \<Rightarrow> bool" where
  "inside_grid x y z \<longleftrightarrow>
     x \<ge> 0 \<and> x < GRID_X \<and> y \<ge> 0 \<and> y < GRID_Y \<and> z \<ge> 0 \<and> z < GRID_Z"

text \<open>
  \<open>g_state.voxels[i]\<close> as a read and as a write: inside the declared bound
  \<open>GRID_SIZE\<close> the access is the list's, outside it is the fault.
\<close>

definition read_voxel :: "8 word list \<Rightarrow> int \<Rightarrow> fault + 8 word" where
  "read_voxel vox i =
     (if 0 \<le> i \<and> i < GRID_SIZE then Inr (vox ! nat i) else Inl OutOfBounds)"

definition write_voxel :: "8 word list \<Rightarrow> int \<Rightarrow> 8 word \<Rightarrow> fault + 8 word list" where
  "write_voxel vox i v =
     (if 0 \<le> i \<and> i < GRID_SIZE then Inr (vox[nat i := v]) else Inl OutOfBounds)"

definition set_voxel :: "int \<Rightarrow> int \<Rightarrow> int \<Rightarrow> 8 word \<Rightarrow> AppState \<Rightarrow> fault + AppState" where
  "set_voxel x y z v s =
     (if inside_grid x y z then
        (case write_voxel (voxels s) (voxel_index x y z) v of
           Inl e \<Rightarrow> Inl e
         | Inr vox' \<Rightarrow> Inr (s\<lparr>voxels := vox'\<rparr>))
      else Inr s)"

subsection \<open>raymath's vector operations\<close>

text \<open>
  \<open>raymath.h\<close> belongs to raylib, not to this repository. Its operations are the
  componentwise ones; \<open>Vector3Normalize\<close> divides by the length only when the length is
  not zero and returns its argument otherwise.
\<close>

definition Vector3Add :: "Vector3 \<Rightarrow> Vector3 \<Rightarrow> Vector3" where
  "Vector3Add a b = \<lparr>vx = vx a + vx b, vy = vy a + vy b, vz = vz a + vz b\<rparr>"

definition Vector3Subtract :: "Vector3 \<Rightarrow> Vector3 \<Rightarrow> Vector3" where
  "Vector3Subtract a b = \<lparr>vx = vx a - vx b, vy = vy a - vy b, vz = vz a - vz b\<rparr>"

definition Vector3Scale :: "Vector3 \<Rightarrow> real \<Rightarrow> Vector3" where
  "Vector3Scale a k = \<lparr>vx = vx a * k, vy = vy a * k, vz = vz a * k\<rparr>"

definition Vector3DotProduct :: "Vector3 \<Rightarrow> Vector3 \<Rightarrow> real" where
  "Vector3DotProduct a b = vx a * vx b + vy a * vy b + vz a * vz b"

definition Vector3CrossProduct :: "Vector3 \<Rightarrow> Vector3 \<Rightarrow> Vector3" where
  "Vector3CrossProduct a b =
     \<lparr>vx = vy a * vz b - vz a * vy b,
      vy = vz a * vx b - vx a * vz b,
      vz = vx a * vy b - vy a * vx b\<rparr>"

definition Vector3Normalize :: "Vector3 \<Rightarrow> Vector3" where
  "Vector3Normalize a =
     (let len = sqrt (vx a * vx a + vy a * vy a + vz a * vz a)
      in if len \<noteq> 0 then Vector3Scale a (1 / len) else a)"

subsection \<open>Ray against the grid's bounding box\<close>

text \<open>
  \<open>axis_slab\<close> returns its \<open>bool\<close> together with the values it leaves in \<open>*tmin\<close> and
  \<open>*tmax\<close>. \<open>inv_dir\<close> is the C local \<open>inv\<close>; \<open>lo\<close> and \<open>hi\<close> are \<open>t_a\<close> and \<open>t_b\<close>
  after the swap.
\<close>

definition axis_slab ::
  "real \<Rightarrow> real \<Rightarrow> real \<Rightarrow> real \<Rightarrow> real \<Rightarrow> real \<Rightarrow> fault + (bool \<times> real \<times> real)" where
  "axis_slab orig dir mn mx tmin tmax =
     (if \<bar>dir\<bar> < eps_f32 then Inr (\<not> (orig < mn \<or> orig > mx), tmin, tmax)
      else
        (case fdiv 1 dir of
           Inl e \<Rightarrow> Inl e
         | Inr inv_dir \<Rightarrow>
             (let t_a = (mn - orig) * inv_dir;
                  t_b = (mx - orig) * inv_dir;
                  lo = (if t_a > t_b then t_b else t_a);
                  hi = (if t_a > t_b then t_a else t_b)
              in Inr (True, max tmin lo, min tmax hi))))"

text \<open>
  \<open>ray_aabb\<close>: \<open>None\<close> is the C \<open>false\<close> (the out-parameters are not written),
  \<open>Some (t0, t1)\<close> is \<open>true\<close> with \<open>*out_t0 = t0\<close> and \<open>*out_t1 = t1\<close>.
\<close>

definition ray_aabb :: "Vector3 \<Rightarrow> Vector3 \<Rightarrow> fault + (real \<times> real) option" where
  "ray_aabb ro rd =
     (case axis_slab (vx ro) (vx rd) 0 (real_of_int GRID_X) (- inf_f32) inf_f32 of
        Inl e \<Rightarrow> Inl e
      | Inr (okx, tmin1, tmax1) \<Rightarrow>
          if \<not> okx then Inr None
          else
            (case axis_slab (vy ro) (vy rd) 0 (real_of_int GRID_Y) tmin1 tmax1 of
               Inl e \<Rightarrow> Inl e
             | Inr (oky, tmin2, tmax2) \<Rightarrow>
                 if \<not> oky then Inr None
                 else
                   (case axis_slab (vz ro) (vz rd) 0 (real_of_int GRID_Z) tmin2 tmax2 of
                      Inl e \<Rightarrow> Inl e
                    | Inr (okz, tmin, tmax) \<Rightarrow>
                        if \<not> okz then Inr None
                        else if tmax < max tmin 0 then Inr None
                        else Inr (Some (tmin, tmax)))))"

subsection \<open>The Amanatides-Woo traversal\<close>

definition sample_voxel_color :: "8 word \<Rightarrow> Vector3" where
  "sample_voxel_color ident =
     (if ident = 1 then \<lparr>vx = 0.28, vy = 0.30, vz = 0.33\<rparr>
      else if ident = 2 then \<lparr>vx = 0.95, vy = 0.30, vz = 0.18\<rparr>
      else if ident = 3 then \<lparr>vx = 0.15, vy = 0.75, vz = 0.35\<rparr>
      else if ident = 4 then \<lparr>vx = 0.20, vy = 0.45, vz = 0.95\<rparr>
      else \<lparr>vx = 1, vy = 1, vz = 1\<rparr>)"

text \<open>
  The local variables of \<open>trace_ray_amanatides_woo\<close> that the loop reads or writes.
  \<open>t_cur\<close> is the C variable \<open>t\<close> and \<open>nsteps\<close> is \<open>steps\<close> (the names \<open>t\<close> and
  \<open>steps\<close> are taken).
\<close>

record dda =
  cell_x :: int
  cell_y :: int
  cell_z :: int
  step :: IVec3
  t_cur :: real
  t_exit :: real
  t_max_x :: real
  t_max_y :: real
  t_max_z :: real
  t_delta_x :: real
  t_delta_y :: real
  t_delta_z :: real
  normal :: IVec3
  nsteps :: int

text \<open>
  One of the three blocks \<open>if (fabsf(rd.a) > 1e-6f) { t_max_a = ...; t_delta_a = ...; }\<close>
  (lines 239 to 250): the pair \<open>(t_max_a, t_delta_a)\<close>, both \<open>inf\<close> when the block is
  skipped.
\<close>

definition first_crossing :: "real \<Rightarrow> real \<Rightarrow> real \<Rightarrow> real \<Rightarrow> fault + (real \<times> real)" where
  "first_crossing t0 nb p d =
     (if \<bar>d\<bar> > eps_f32 then
        (case fdiv (nb - p) d of
           Inl e \<Rightarrow> Inl e
         | Inr q \<Rightarrow>
             (case fdiv 1 d of
                Inl e \<Rightarrow> Inl e
              | Inr r \<Rightarrow> Inr (t0 + q, \<bar>r\<bar>)))
      else Inr (inf_f32, inf_f32))"

text \<open>Steps 2 to 4 of the function (lines 207 to 253): the state the loop starts in.\<close>

definition dda_init :: "Vector3 \<Rightarrow> Vector3 \<Rightarrow> real \<Rightarrow> real \<Rightarrow> fault + dda" where
  "dda_init ro rd t_enter t_ex =
     (let t0 = max t_enter 0;
          p = Vector3Add ro (Vector3Scale rd t0);
          cx = clamp_i32 \<lfloor>vx p\<rfloor> 0 (GRID_X - 1);
          cy = clamp_i32 \<lfloor>vy p\<rfloor> 0 (GRID_Y - 1);
          cz = clamp_i32 \<lfloor>vz p\<rfloor> 0 (GRID_Z - 1);
          st = \<lparr>ix = (if vx rd > 0 then 1 else - 1),
                iy = (if vy rd > 0 then 1 else - 1),
                iz = (if vz rd > 0 then 1 else - 1)\<rparr>;
          next_boundary =
            \<lparr>vx = real_of_int (cx + (if ix st > 0 then 1 else 0)),
             vy = real_of_int (cy + (if iy st > 0 then 1 else 0)),
             vz = real_of_int (cz + (if iz st > 0 then 1 else 0))\<rparr>
      in
        (case first_crossing t0 (vx next_boundary) (vx p) (vx rd) of
           Inl e \<Rightarrow> Inl e
         | Inr (tmx, tdx) \<Rightarrow>
        (case first_crossing t0 (vy next_boundary) (vy p) (vy rd) of
           Inl e \<Rightarrow> Inl e
         | Inr (tmy, tdy) \<Rightarrow>
        (case first_crossing t0 (vz next_boundary) (vz p) (vz rd) of
           Inl e \<Rightarrow> Inl e
         | Inr (tmz, tdz) \<Rightarrow>
             Inr \<lparr>cell_x = cx, cell_y = cy, cell_z = cz, step = st,
                  t_cur = t0, t_exit = t_ex,
                  t_max_x = tmx, t_max_y = tmy, t_max_z = tmz,
                  t_delta_x = tdx, t_delta_y = tdy, t_delta_z = tdz,
                  normal = \<lparr>ix = 0, iy = 1, iz = 0\<rparr>, nsteps = 0\<rparr>))))"

text \<open>The \<open>if / else if / else\<close> that ends the loop body (lines 281 to 296).\<close>

definition dda_advance :: "dda \<Rightarrow> dda" where
  "dda_advance s =
     (if t_max_x s < t_max_y s \<and> t_max_x s < t_max_z s then
        s\<lparr>cell_x := cell_x s + ix (step s),
          t_cur := t_max_x s,
          t_max_x := t_max_x s + t_delta_x s,
          normal := \<lparr>ix = - ix (step s), iy = 0, iz = 0\<rparr>\<rparr>
      else if t_max_y s < t_max_z s then
        s\<lparr>cell_y := cell_y s + iy (step s),
          t_cur := t_max_y s,
          t_max_y := t_max_y s + t_delta_y s,
          normal := \<lparr>ix = 0, iy = - iy (step s), iz = 0\<rparr>\<rparr>
      else
        s\<lparr>cell_z := cell_z s + iz (step s),
          t_cur := t_max_z s,
          t_max_z := t_max_z s + t_delta_z s,
          normal := \<lparr>ix = 0, iy = 0, iz = - iz (step s)\<rparr>\<rparr>)"

text \<open>The result built in the \<open>id != 0\<close> branch (lines 266 to 277).\<close>

definition hit_result :: "8 word \<Rightarrow> dda \<Rightarrow> TraceResult" where
  "hit_result ident s =
     (let base = sample_voxel_color ident;
          n = \<lparr>vx = real_of_int (ix (normal s)),
               vy = real_of_int (iy (normal s)),
               vz = real_of_int (iz (normal s))\<rparr>;
          ndotl = max (Vector3DotProduct n LIGHT_DIR) 0;
          ao = 0.7 + 0.3 * (real_of_int (cell_y s) / real_of_int GRID_Y)
      in \<lparr>hit = True, entered_grid = True, steps = nsteps s,
          col = Vector3Scale base (0.2 + 0.8 * ndotl * ao)\<rparr>)"

text \<open>The result built after the loop (lines 299 to 306).\<close>

definition miss_result :: "Vector3 \<Rightarrow> dda \<Rightarrow> TraceResult" where
  "miss_result rd s =
     (let sky = clamp_f32 (0.5 * (vy rd + 1)) 0 1
      in \<lparr>hit = False, entered_grid = True, steps = nsteps s,
          col = \<lparr>vx = 0.5 + 0.3 * sky, vy = 0.65 + 0.2 * sky, vz = 0.95\<rparr>\<rparr>)"

text \<open>
  The loop \<open>for (int i = 0; i < 256; i++)\<close>, entered with \<open>i\<close>. A \<open>break\<close> and the
  normal end of the loop both continue to the miss result; the hit returns from inside.
\<close>

function dda_loop :: "8 word list \<Rightarrow> Vector3 \<Rightarrow> int \<Rightarrow> dda \<Rightarrow> fault + TraceResult" where
  "dda_loop vox rd i s =
     (if i < 256 then
        (if \<not> inside_grid (cell_x s) (cell_y s) (cell_z s) \<or> t_cur s > t_exit s
         then Inr (miss_result rd s)
         else
           (case read_voxel vox (voxel_index (cell_x s) (cell_y s) (cell_z s)) of
              Inl e \<Rightarrow> Inl e
            | Inr ident \<Rightarrow>
                if ident \<noteq> 0 then Inr (hit_result ident (s\<lparr>nsteps := nsteps s + 1\<rparr>))
                else dda_loop vox rd (i + 1) (dda_advance (s\<lparr>nsteps := nsteps s + 1\<rparr>))))
      else Inr (miss_result rd s))"
  by pat_completeness auto
termination
  by (relation "measure (\<lambda>(vox, rd, i, s). nat (256 - i))") auto

declare dda_loop.simps [simp del]

definition trace_ray_amanatides_woo :: "8 word list \<Rightarrow> Vector3 \<Rightarrow> Vector3 \<Rightarrow> fault + TraceResult" where
  "trace_ray_amanatides_woo vox ro rd =
     (case ray_aabb ro rd of
        Inl e \<Rightarrow> Inl e
      | Inr None \<Rightarrow>
          (let sky = clamp_f32 (0.5 * (vy rd + 1)) 0 1
           in Inr \<lparr>hit = False, entered_grid = False, steps = 0,
                   col = \<lparr>vx = 0.55 + 0.2 * sky, vy = 0.7 + 0.15 * sky, vz = 0.95\<rparr>\<rparr>)
      | Inr (Some (t_enter, t_ex)) \<Rightarrow>
          (case dda_init ro rd t_enter t_ex of
             Inl e \<Rightarrow> Inl e
           | Inr s \<Rightarrow> dda_loop vox rd 0 s))"

subsection \<open>The frame renderer\<close>

text \<open>
  The values \<open>render_voxel_image\<close> computes once per frame and the loops only read
  (lines 316 to 346). \<open>cosf\<close>, \<open>sinf\<close> and \<open>tanf\<close> are the real functions.
\<close>

record frame_setup =
  cam :: Vector3
  forward :: Vector3
  right :: Vector3
  up :: Vector3
  u_step :: real
  v_step :: real
  u_start :: real
  v_start :: real
  ray_step_x :: Vector3

definition camera_setup :: "AppState \<Rightarrow> frame_setup" where
  "camera_setup s =
     (let center = \<lparr>vx = real_of_int GRID_X * 0.5, vy = 3, vz = real_of_int GRID_Z * 0.5\<rparr>;
          orbit_t = time_s s * 0.6;
          radius = 18;
          cam0 = \<lparr>vx = vx center + cos orbit_t * radius,
                  vy = 8.5 + sin (orbit_t * 0.7) * 1.5,
                  vz = vz center + sin orbit_t * radius\<rparr>;
          cam1 = (if freeze_camera s
                  then \<lparr>vx = vx center + radius, vy = 8.5, vz = vz center\<rparr>
                  else cam0);
          fwd = Vector3Normalize (Vector3Subtract center cam1);
          rgt = Vector3Normalize (Vector3CrossProduct fwd \<lparr>vx = 0, vy = 1, vz = 0\<rparr>);
          upv = Vector3Normalize (Vector3CrossProduct rgt fwd);
          aspect = real_of_int IMG_W / real_of_int IMG_H;
          fov_scale = tan ((55 * 0.5) * (3.14159265358979323846 / 180));
          inv_img_w = 1 / real_of_int IMG_W;
          inv_img_h = 1 / real_of_int IMG_H;
          ustep = 2 * aspect * fov_scale * inv_img_w
      in \<lparr>cam = cam1, forward = fwd, right = rgt, up = upv,
          u_step = ustep,
          v_step = - 2 * fov_scale * inv_img_h,
          u_start = (- 1 + inv_img_w) * aspect * fov_scale,
          v_start = (1 - inv_img_h) * fov_scale,
          ray_step_x = Vector3Scale rgt ustep\<rparr>)"

text \<open>The four statements that fold one trace into the counters (lines 359 to 362).\<close>

definition fold_stats :: "TraceResult \<Rightarrow> FrameStats \<Rightarrow> FrameStats" where
  "fold_stats tr stats =
     (let s1 = (if entered_grid tr
                then stats\<lparr>rays_entered_grid := rays_entered_grid stats + 1\<rparr> else stats);
          s2 = (if hit tr then s1\<lparr>hits := hits s1 + 1\<rparr> else s1);
          s3 = s2\<lparr>total_steps := total_steps s2 + steps tr\<rparr>
      in if steps tr > max_steps s3 then s3\<lparr>max_steps := steps tr\<rparr> else s3)"

text \<open>
  The C cast \<open>(int) f\<close> of a float truncates towards zero; the cast \<open>(unsigned char) r\<close> of
  an \<open>int\<close> keeps the low eight bits. The colour stored for one trace (lines 364 to 373).
\<close>

definition trunc_i32 :: "real \<Rightarrow> int" where
  "trunc_i32 v = (if 0 \<le> v then \<lfloor>v\<rfloor> else \<lceil>v\<rceil>)"

definition pixel_color :: "TraceResult \<Rightarrow> Color" where
  "pixel_color tr =
     (let r = clamp_i32 (trunc_i32 (vx (col tr) * 255)) 0 255;
          g = clamp_i32 (trunc_i32 (vy (col tr) * 255)) 0 255;
          b = clamp_i32 (trunc_i32 (vz (col tr) * 255)) 0 255
      in \<lparr>cr = word_of_int r, cg = word_of_int g, cb = word_of_int b, ca = 255\<rparr>)"

definition write_pixel :: "Color list \<Rightarrow> int \<Rightarrow> Color \<Rightarrow> fault + Color list" where
  "write_pixel px i c =
     (if 0 \<le> i \<and> i < IMG_W * IMG_H then Inr (px[nat i := c]) else Inl OutOfBounds)"

text \<open>The inner loop \<open>for (int x = 0; x < IMG_W; x++)\<close>, entered with \<open>x\<close>.\<close>

function render_row ::
  "8 word list \<Rightarrow> frame_setup \<Rightarrow> int \<Rightarrow> Vector3 \<Rightarrow> int \<Rightarrow> Color list \<Rightarrow> FrameStats
     \<Rightarrow> fault + (Color list \<times> FrameStats)" where
  "render_row vox c x ray pixel_index px stats =
     (if x < IMG_W then
        (case trace_ray_amanatides_woo vox (cam c) (Vector3Normalize ray) of
           Inl e \<Rightarrow> Inl e
         | Inr tr \<Rightarrow>
             (case write_pixel px pixel_index (pixel_color tr) of
                Inl e \<Rightarrow> Inl e
              | Inr px' \<Rightarrow>
                  render_row vox c (x + 1) (Vector3Add ray (ray_step_x c)) (pixel_index + 1)
                    px' (fold_stats tr stats)))
      else Inr (px, stats))"
  by pat_completeness auto
termination
  by (relation "measure (\<lambda>(vox, c, x, ray, pixel_index, px, stats). nat (IMG_W - x))") auto

declare render_row.simps [simp del]

text \<open>The outer loop \<open>for (int y = 0; y < IMG_H; y++)\<close>, entered with \<open>y\<close>.\<close>

function render_rows ::
  "8 word list \<Rightarrow> frame_setup \<Rightarrow> int \<Rightarrow> Color list \<Rightarrow> FrameStats
     \<Rightarrow> fault + (Color list \<times> FrameStats)" where
  "render_rows vox c y px stats =
     (if y < IMG_H then
        (let v = v_start c + real_of_int y * v_step c;
             row_base = Vector3Add (forward c) (Vector3Scale (up c) v);
             ray = Vector3Add row_base (Vector3Scale (right c) (u_start c))
         in (case render_row vox c 0 ray (y * IMG_W) px stats of
               Inl e \<Rightarrow> Inl e
             | Inr (px', stats') \<Rightarrow> render_rows vox c (y + 1) px' stats'))
      else Inr (px, stats))"
  by pat_completeness auto
termination
  by (relation "measure (\<lambda>(vox, c, y, px, stats). nat (IMG_H - y))") auto

declare render_rows.simps [simp del]

text \<open>The two statements after the loops (lines 379 to 386).\<close>

definition finish_stats :: "real \<Rightarrow> FrameStats \<Rightarrow> fault + FrameStats" where
  "finish_stats dt stats =
     (case (if rays stats > 0 then
              (case fdiv (real_of_int (total_steps stats)) (real_of_int (rays stats)) of
                 Inl e \<Rightarrow> Inl e
               | Inr avg \<Rightarrow>
                   (case fdiv (real_of_int (hits stats)) (real_of_int (rays stats)) of
                      Inl e \<Rightarrow> Inl e
                    | Inr ratio \<Rightarrow> Inr (stats\<lparr>avg_steps_per_ray := avg, hit_ratio := ratio\<rparr>)))
            else Inr stats) of
        Inl e \<Rightarrow> Inl e
      | Inr stats1 \<Rightarrow>
          if dt > eps_f32 then
            (case fdiv (real_of_int (rays stats1)) dt of
               Inl e \<Rightarrow> Inl e
             | Inr rps \<Rightarrow>
                 (case fdiv (real_of_int (total_steps stats1)) dt of
                    Inl e \<Rightarrow> Inl e
                  | Inr sps \<Rightarrow> Inr (stats1\<lparr>rays_per_sec := rps, steps_per_sec := sps\<rparr>)))
          else Inr stats1)"

text \<open>\<open>memset(&stats, 0, sizeof(stats))\<close>.\<close>

definition zero_stats :: FrameStats where
  "zero_stats =
     \<lparr>rays = 0, rays_entered_grid = 0, hits = 0, total_steps = 0, max_steps = 0,
      avg_steps_per_ray = 0, hit_ratio = 0, rays_per_sec = 0, steps_per_sec = 0\<rparr>"

text \<open>
  \<open>render_voxel_image\<close> reads and writes \<open>g_state\<close>: it takes the state and returns the
  state with the new pixel buffer, beside the statistics the C function returns.
\<close>

definition render_voxel_image :: "real \<Rightarrow> AppState \<Rightarrow> fault + (AppState \<times> FrameStats)" where
  "render_voxel_image dt s =
     (case render_rows (voxels s) (camera_setup s) 0 (pixels s)
             (zero_stats\<lparr>rays := IMG_W * IMG_H\<rparr>) of
        Inl e \<Rightarrow> Inl e
      | Inr (px, stats) \<Rightarrow>
          (case finish_stats dt stats of
             Inl e \<Rightarrow> Inl e
           | Inr stats' \<Rightarrow> Inr (s\<lparr>pixels := px\<rparr>, stats')))"

subsection \<open>The ray set-up of a row in single precision\<close>

text \<open>
  A single-precision float has a significand of 24 bits. \<open>round_f32\<close> rounds a real to
  the nearest such value, ties to the even significand: for \<open>2^k \<le> |r| < 2^(k+1)\<close> the
  result is a multiple of \<open>2^(k-23)\<close>. The range of the exponent is not bounded: overflow
  and subnormal results are outside this model. A C operation on floats is the exact
  operation followed by \<open>round_f32\<close> (no fused multiply-add, no excess precision).
\<close>

definition pow2 :: "int \<Rightarrow> real" where
  "pow2 e = (if 0 \<le> e then 2 ^ nat e else 1 / 2 ^ nat (- e))"

definition round_even :: "real \<Rightarrow> int" where
  "round_even q =
     (let f = \<lfloor>q\<rfloor>; d = q - real_of_int f
      in if d < 1 / 2 then f else if d > 1 / 2 then f + 1 else if even f then f else f + 1)"

definition round_f32 :: "real \<Rightarrow> real" where
  "round_f32 r =
     (if r = 0 then 0
      else (let e = \<lfloor>log 2 \<bar>r\<bar>\<rfloor> - 23
            in real_of_int (round_even (r / pow2 e)) * pow2 e))"

definition fadd_f32 :: "real \<Rightarrow> real \<Rightarrow> real" where
  "fadd_f32 a b = round_f32 (a + b)"

definition fmul_f32 :: "real \<Rightarrow> real \<Rightarrow> real" where
  "fmul_f32 a b = round_f32 (a * b)"

definition Vector3Add_f32 :: "Vector3 \<Rightarrow> Vector3 \<Rightarrow> Vector3" where
  "Vector3Add_f32 a b =
     \<lparr>vx = fadd_f32 (vx a) (vx b), vy = fadd_f32 (vy a) (vy b), vz = fadd_f32 (vz a) (vz b)\<rparr>"

definition Vector3Scale_f32 :: "Vector3 \<Rightarrow> real \<Rightarrow> Vector3" where
  "Vector3Scale_f32 a k =
     \<lparr>vx = fmul_f32 (vx a) k, vy = fmul_f32 (vy a) k, vz = fmul_f32 (vz a) k\<rparr>"

text \<open>
  The ray of row \<open>y\<close> as the loops compute it: \<open>v\<close>, \<open>row_base\<close> and the first \<open>ray\<close>
  (lines 350 to 352, where \<open>(float) y\<close> is exact), then one addition of \<open>ray_step_x\<close> per
  column (line 375). \<open>incremental_ray_f32 c y k\<close> is the value of \<open>ray\<close> when the inner
  loop is at column \<open>k\<close>.
\<close>

definition row_base_f32 :: "frame_setup \<Rightarrow> int \<Rightarrow> Vector3" where
  "row_base_f32 c y =
     (let v = fadd_f32 (v_start c) (fmul_f32 (real_of_int y) (v_step c))
      in Vector3Add_f32 (forward c) (Vector3Scale_f32 (up c) v))"

fun incremental_ray_f32 :: "frame_setup \<Rightarrow> int \<Rightarrow> nat \<Rightarrow> Vector3" where
  "incremental_ray_f32 c y 0 =
     Vector3Add_f32 (row_base_f32 c y) (Vector3Scale_f32 (right c) (u_start c))"
| "incremental_ray_f32 c y (Suc k) =
     Vector3Add_f32 (incremental_ray_f32 c y k) (ray_step_x c)"

text \<open>
  Not from the source: the direct closed-form evaluation the specification compares the
  loop with, \<open>forward + up * (v_start + y * v_step) + right * (u_start + x * u_step)\<close>,
  each operation rounded. Its first two terms are the \<open>row_base\<close> of the code.
\<close>

definition spec_closed_form_ray_f32 :: "frame_setup \<Rightarrow> int \<Rightarrow> nat \<Rightarrow> Vector3" where
  "spec_closed_form_ray_f32 c y x =
     Vector3Add_f32 (row_base_f32 c y)
       (Vector3Scale_f32 (right c) (fadd_f32 (u_start c) (fmul_f32 (real x) (u_step c))))"

subsection \<open>Concrete inputs for the instances below\<close>

text \<open>
  The zeroed state: static storage is zero and both buffers are cleared by \<open>memset\<close>
  (the state before \<open>build_scene\<close> sets the voxels of the scene).
\<close>

definition blank_state :: AppState where
  "blank_state =
     \<lparr>pixels = replicate 57600 \<lparr>cr = 0, cg = 0, cb = 0, ca = 0\<rparr>,
      voxels = replicate 9216 0,
      time_s = 0, freeze_camera = False, request_quit = False,
      frame_stats = zero_stats, frame_ms = 0, fps_smooth = 0\<rparr>"

text \<open>A ray that starts at the centre of the box and runs along the x axis.\<close>

definition centre_origin :: Vector3 where
  "centre_origin = \<lparr>vx = 12, vy = 8, vz = 12\<rparr>"

definition x_axis_dir :: Vector3 where
  "x_axis_dir = \<lparr>vx = 1, vy = 0, vz = 0\<rparr>"

text \<open>
  A ray from the middle of the cell \<open>(0, 0, 0)\<close> along the diagonal of the xy plane, and
  the state the traversal starts it in: the crossings of x and y are at the same distance.
\<close>

definition half_origin :: Vector3 where
  "half_origin = \<lparr>vx = 0.5, vy = 0.5, vz = 0.5\<rparr>"

definition diag_dir :: Vector3 where
  "diag_dir = \<lparr>vx = 1, vy = 1, vz = 0\<rparr>"

definition tie_state :: dda where
  "tie_state =
     \<lparr>cell_x = 0, cell_y = 0, cell_z = 0, step = \<lparr>ix = 1, iy = 1, iz = - 1\<rparr>,
      t_cur = 0, t_exit = 31 / 2,
      t_max_x = 1 / 2, t_max_y = 1 / 2, t_max_z = inf_f32,
      t_delta_x = 1, t_delta_y = 1, t_delta_z = inf_f32,
      normal = \<lparr>ix = 0, iy = 1, iz = 0\<rparr>, nsteps = 0\<rparr>"

text \<open>
  A ray that enters the box through the face \<open>x = 0\<close> (into the cell \<open>(0, 0, 0)\<close>) with
  the state the traversal starts it in, a grid whose only occupied voxel is that cell, and
  a loop state whose cell has left the grid.
\<close>

definition west_origin :: Vector3 where
  "west_origin = \<lparr>vx = - 1, vy = 0.5, vz = 0.5\<rparr>"

definition west_state :: dda where
  "west_state =
     \<lparr>cell_x = 0, cell_y = 0, cell_z = 0, step = \<lparr>ix = 1, iy = - 1, iz = - 1\<rparr>,
      t_cur = 1, t_exit = 25,
      t_max_x = 2, t_max_y = inf_f32, t_max_z = inf_f32,
      t_delta_x = 1, t_delta_y = inf_f32, t_delta_z = inf_f32,
      normal = \<lparr>ix = 0, iy = 1, iz = 0\<rparr>, nsteps = 0\<rparr>"

definition corner_voxel :: "8 word list" where
  "corner_voxel = (replicate 9216 0)[0 := 2]"

definition outside_state :: dda where
  "outside_state = west_state\<lparr>cell_x := 24\<rparr>"

text \<open>
  A state that differs from \<open>blank_state\<close> only in what the renderer does not read: the
  previous pixel buffer, the quit flag and the timing read-outs.
\<close>

definition stale_state :: AppState where
  "stale_state =
     blank_state\<lparr>pixels := replicate 57600 \<lparr>cr = 255, cg = 255, cb = 255, ca = 255\<rparr>,
       request_quit := True, frame_ms := 16, fps_smooth := 60\<rparr>"

text \<open>
  The frame set-up of the frozen camera, lines 316 to 346 evaluated in single precision
  (\<open>sqrtf\<close> and the divisions correctly rounded, \<open>tanf\<close> returning the float nearest to
  the tangent of its argument), and a state with the camera frozen.
\<close>

definition frozen_setup_f32 :: frame_setup where
  "frozen_setup_f32 =
     \<lparr>cam = \<lparr>vx = 30, vy = 8.5, vz = 12\<rparr>,
      forward = \<lparr>vx = - (8022459 / 8388608), vy = - (9805227 / 33554432), vz = 0\<rparr>,
      right = \<lparr>vx = 0, vy = 0, vz = - 1\<rparr>,
      up = \<lparr>vx = - (9805227 / 33554432), vy = 8022459 / 8388608, vz = 0\<rparr>,
      u_step = 6210607 / 1073741824,
      v_step = - (6210607 / 1073741824),
      u_start = - (3869499 / 4194304),
      v_start = 4342573 / 8388608,
      ray_step_x = \<lparr>vx = 0, vy = 0, vz = - (6210607 / 1073741824)\<rparr>\<rparr>"

definition frozen_state :: AppState where
  "frozen_state = blank_state\<lparr>freeze_camera := True\<rparr>"

section \<open>Properties\<close>

subsection \<open>The voxel grid: indices and \<open>set_voxel\<close>\<close>

lemma inside_grid_index:
  "inside_grid x y z \<Longrightarrow> 0 \<le> voxel_index x y z \<and> voxel_index x y z < GRID_SIZE"
  unfolding inside_grid_def voxel_index_def GRID_SIZE_def GRID_X_def GRID_Y_def GRID_Z_def
  by simp

lemma digit_split:
  fixes a a' k k' n :: int
  assumes "0 \<le> a" "a < n" "0 \<le> a'" "a' < n" and e: "a + n * k = a' + n * k'"
  shows "a = a' \<and> k = k'"
proof -
  have "(a + n * k) mod n = a" "(a' + n * k') mod n = a'"
    using assms(1-4) by simp_all
  then have a: "a = a'" using e by simp
  moreover have "0 < n" using assms(1,2) by simp
  ultimately show ?thesis using e by simp
qed

lemma voxel_index_inj:
  assumes "inside_grid x y z" and "inside_grid x' y' z'"
    and e: "voxel_index x y z = voxel_index x' y' z'"
  shows "x = x' \<and> y = y' \<and> z = z'"
proof -
  have b: "0 \<le> x" "x < 24" "0 \<le> y" "y < 16" "0 \<le> x'" "x' < 24" "0 \<le> y'" "y' < 16"
    using assms(1,2) by (simp_all add: inside_grid_def GRID_X_def GRID_Y_def)
  have e': "x + 24 * (y + 16 * z) = x' + 24 * (y' + 16 * z')"
    using e by (simp add: voxel_index_def GRID_X_def GRID_Y_def)
  have x: "x = x' \<and> y + 16 * z = y' + 16 * z'"
    using digit_split [OF b(1,2,5,6) e'] .
  have "y = y' \<and> z = z'"
    using digit_split [OF b(3,4,7,8)] x by blast
  with x show ?thesis by simp
qed

text \<open>
  Claim C6. A call \<open>set_voxel(x, y, z, v)\<close> with coordinates outside the grid returns
  without a fault and leaves the whole state, so every voxel, as it was. With coordinates
  inside the grid it returns without a fault, writes the one element at
  \<open>voxel_index x y z\<close>, and every other element of the array, so the voxel of every
  other cell of the grid, is unchanged.
\<close>

theorem set_voxel_frame:
  "(\<not> inside_grid x y z \<longrightarrow> set_voxel x y z v s = Inr s) \<and>
   (inside_grid x y z \<longrightarrow>
      set_voxel x y z v s = Inr (s\<lparr>voxels := (voxels s)[nat (voxel_index x y z) := v]\<rparr>) \<and>
      (\<forall>i. i \<noteq> nat (voxel_index x y z) \<longrightarrow>
           ((voxels s)[nat (voxel_index x y z) := v]) ! i = voxels s ! i) \<and>
      (\<forall>x' y' z'. inside_grid x' y' z' \<and> (x', y', z') \<noteq> (x, y, z) \<longrightarrow>
           read_voxel ((voxels s)[nat (voxel_index x y z) := v]) (voxel_index x' y' z')
           = read_voxel (voxels s) (voxel_index x' y' z')))"
proof (intro conjI impI allI)
  assume "\<not> inside_grid x y z"
  then show "set_voxel x y z v s = Inr s" by (simp add: set_voxel_def)
next
  assume "inside_grid x y z"
  then show "set_voxel x y z v s = Inr (s\<lparr>voxels := (voxels s)[nat (voxel_index x y z) := v]\<rparr>)"
    using inside_grid_index [of x y z] by (simp add: set_voxel_def write_voxel_def)
next
  fix i assume "i \<noteq> nat (voxel_index x y z)"
  then show "((voxels s)[nat (voxel_index x y z) := v]) ! i = voxels s ! i" by simp
next
  fix x' y' z'
  assume a: "inside_grid x y z" and b: "inside_grid x' y' z' \<and> (x', y', z') \<noteq> (x, y, z)"
  have "voxel_index x' y' z' \<noteq> voxel_index x y z"
    using voxel_index_inj [of x' y' z' x y z] a b by auto
  moreover have "0 \<le> voxel_index x y z" "0 \<le> voxel_index x' y' z'"
    using inside_grid_index a b by auto
  ultimately have "nat (voxel_index x' y' z') \<noteq> nat (voxel_index x y z)" by simp
  then show "read_voxel ((voxels s)[nat (voxel_index x y z) := v]) (voxel_index x' y' z')
           = read_voxel (voxels s) (voxel_index x' y' z')"
    by (simp add: read_voxel_def)
qed

text \<open>
  The instance: \<open>(24, 0, 0)\<close> is outside the grid and the call changes nothing;
  \<open>(1, 2, 3)\<close> is inside, the call writes element 1201 and the cell \<open>(0, 0, 0)\<close> reads
  as before.
\<close>

theorem set_voxel_frame_witness:
  "\<not> inside_grid 24 0 0 \<and> set_voxel 24 0 0 7 blank_state = Inr blank_state \<and>
   inside_grid 1 2 3 \<and>
   set_voxel 1 2 3 7 blank_state
     = Inr (blank_state\<lparr>voxels := (voxels blank_state)[1201 := 7]\<rparr>) \<and>
   inside_grid 0 0 0 \<and> (0, 0, 0) \<noteq> (1 :: int, 2 :: int, 3 :: int) \<and>
   read_voxel ((voxels blank_state)[1201 := 7]) (voxel_index 0 0 0)
     = read_voxel (voxels blank_state) (voxel_index 0 0 0)"
proof -
  have i: "inside_grid 1 2 3" "inside_grid 0 0 0" "\<not> inside_grid 24 0 0"
    by (simp_all add: inside_grid_def GRID_X_def GRID_Y_def GRID_Z_def)
  have k: "nat (voxel_index 1 2 3) = 1201"
    by (simp add: voxel_index_def GRID_X_def GRID_Y_def)
  have n: "(0 :: int, 0 :: int, 0 :: int) \<noteq> (1, 2, 3)" by simp
  note a = set_voxel_frame [of 24 0 0 7 blank_state]
  note b = set_voxel_frame [of 1 2 3 7 blank_state, unfolded k]
  from a i have 1: "set_voxel 24 0 0 7 blank_state = Inr blank_state" by blast
  from b i have 2: "set_voxel 1 2 3 7 blank_state
     = Inr (blank_state\<lparr>voxels := (voxels blank_state)[1201 := 7]\<rparr>)" by blast
  from b i n have 3: "read_voxel ((voxels blank_state)[1201 := 7]) (voxel_index 0 0 0)
     = read_voxel (voxels blank_state) (voxel_index 0 0 0)" by blast
  from i n 1 2 3 show ?thesis by blast
qed

subsection \<open>The slab test and the clip interval\<close>

lemma eps_f32_pos: "0 < eps_f32"
  by (simp add: eps_f32_def)

lemma fdiv_nonzero: "b \<noteq> 0 \<Longrightarrow> fdiv a b = Inr (a / b)"
  by (simp add: fdiv_def)

lemma axis_slab_parallel_eq:
  "\<bar>dir\<bar> < eps_f32 \<Longrightarrow>
   axis_slab orig dir mn mx tmin tmax = Inr (mn \<le> orig \<and> orig \<le> mx, tmin, tmax)"
  by (auto simp add: axis_slab_def)

lemma axis_slab_crossing_eq:
  assumes "\<not> \<bar>dir\<bar> < eps_f32"
  shows "axis_slab orig dir mn mx tmin tmax =
         Inr (True,
              max tmin (min ((mn - orig) * (1 / dir)) ((mx - orig) * (1 / dir))),
              min tmax (max ((mn - orig) * (1 / dir)) ((mx - orig) * (1 / dir))))"
proof -
  have "dir \<noteq> 0" using assms eps_f32_pos by auto
  then have "fdiv 1 dir = Inr (1 / dir)" by (rule fdiv_nonzero)
  then show ?thesis
    using assms by (simp add: axis_slab_def Let_def min_def max_def)
qed

lemma axis_slab_total: "\<exists>r. axis_slab orig dir mn mx tmin tmax = Inr r"
proof (cases "\<bar>dir\<bar> < eps_f32")
  case True
  then show ?thesis using axis_slab_parallel_eq by blast
next
  case False
  then show ?thesis using axis_slab_crossing_eq by blast
qed

lemma ray_aabb_total: "\<exists>r. ray_aabb ro rd = Inr r"
proof -
  obtain okx a1 b1 where x:
    "axis_slab (vx ro) (vx rd) 0 (real_of_int GRID_X) (- inf_f32) inf_f32 = Inr (okx, a1, b1)"
    using axis_slab_total by (metis prod_cases3)
  obtain oky a2 b2 where y:
    "axis_slab (vy ro) (vy rd) 0 (real_of_int GRID_Y) a1 b1 = Inr (oky, a2, b2)"
    using axis_slab_total by (metis prod_cases3)
  obtain okz a3 b3 where z:
    "axis_slab (vz ro) (vz rd) 0 (real_of_int GRID_Z) a2 b2 = Inr (okz, a3, b3)"
    using axis_slab_total by (metis prod_cases3)
  show ?thesis
    unfolding ray_aabb_def by (simp add: x y z)
qed

text \<open>
  Claim C4. When the magnitude of the direction component is below \<open>1e-6\<close>,
  \<open>axis_slab\<close> takes the branch without a division: it returns true exactly when
  \<open>min \<le> orig \<le> max\<close>, whatever the running interval is, and leaves \<open>tmin\<close> and
  \<open>tmax\<close> as they were. In the other branch the divisor is at least \<open>1e-6\<close> in
  magnitude, so neither \<open>axis_slab\<close> nor \<open>ray_aabb\<close> ever divides by zero.
\<close>

theorem axis_slab_parallel:
  "(\<bar>dir\<bar> < eps_f32 \<longrightarrow>
      axis_slab orig dir mn mx tmin tmax = Inr (mn \<le> orig \<and> orig \<le> mx, tmin, tmax)) \<and>
   (\<exists>r. axis_slab orig dir mn mx tmin tmax = Inr r) \<and>
   (\<exists>r. ray_aabb ro rd = Inr r)"
  using axis_slab_parallel_eq axis_slab_total ray_aabb_total by blast

text \<open>
  The instance: a direction component of exactly zero, with the origin inside the slab,
  outside it, and inside it while the running interval is already empty; and a direction
  component that is not zero but below the threshold, with the origin outside the slab.
\<close>

theorem axis_slab_parallel_witness:
  "\<bar>0 :: real\<bar> < eps_f32 \<and>
   axis_slab 5 0 0 24 (- 3) 7 = Inr (True, - 3, 7) \<and>
   axis_slab 30 0 0 24 (- 3) 7 = Inr (False, - 3, 7) \<and>
   axis_slab 5 0 0 24 100 (- 100) = Inr (True, 100, - 100) \<and>
   \<bar>1 / 2000000 :: real\<bar> < eps_f32 \<and>
   axis_slab 30 (1 / 2000000) 0 24 (- 3) 7 = Inr (False, - 3, 7)"
proof -
  have e: "\<bar>0 :: real\<bar> < eps_f32" "\<bar>1 / 2000000 :: real\<bar> < eps_f32"
    by (simp_all add: eps_f32_def)
  show ?thesis
    using e axis_slab_parallel [of 0 5 0 24 "- 3" 7]
      axis_slab_parallel [of 0 30 0 24 "- 3" 7]
      axis_slab_parallel [of 0 5 0 24 100 "- 100"]
      axis_slab_parallel [of "1 / 2000000" 30 0 24 "- 3" 7]
    by simp
qed

text \<open>
  At the threshold itself the test \<open>fabsf(dir) < 1e-6f\<close> is false: the call divides, returns
  true also for an origin outside the slab, and clips the interval.
\<close>

lemma axis_slab_at_threshold:
  "\<not> \<bar>eps_f32\<bar> < eps_f32 \<and>
   axis_slab 30 eps_f32 0 24 (- 3) 7 = Inr (True, - 3, - (6 / eps_f32))"
proof -
  have n: "\<not> \<bar>eps_f32\<bar> < eps_f32" by simp
  show ?thesis
    using axis_slab_crossing_eq [OF n, of 30 0 24 "- 3" 7] n
    by (simp add: eps_f32_def)
qed

lemma ray_aabb_Some_order:
  assumes "ray_aabb ro rd = Inr (Some (t0, t1))"
  shows "max t0 0 \<le> t1"
proof -
  obtain okx a1 b1 where x:
    "axis_slab (vx ro) (vx rd) 0 (real_of_int GRID_X) (- inf_f32) inf_f32 = Inr (okx, a1, b1)"
    using axis_slab_total by (metis prod_cases3)
  obtain oky a2 b2 where y:
    "axis_slab (vy ro) (vy rd) 0 (real_of_int GRID_Y) a1 b1 = Inr (oky, a2, b2)"
    using axis_slab_total by (metis prod_cases3)
  obtain okz a3 b3 where z:
    "axis_slab (vz ro) (vz rd) 0 (real_of_int GRID_Z) a2 b2 = Inr (okz, a3, b3)"
    using axis_slab_total by (metis prod_cases3)
  show ?thesis
    using assms unfolding ray_aabb_def by (auto simp add: x y z split: if_splits)
qed

lemma axis_slab_inside:
  assumes o: "mn \<le> orig" "orig \<le> mx" and t: "tmin \<le> 0" "0 \<le> tmax"
  shows "\<exists>lo hi. axis_slab orig dir mn mx tmin tmax = Inr (True, lo, hi) \<and> lo \<le> 0 \<and> 0 \<le> hi"
proof (cases "\<bar>dir\<bar> < eps_f32")
  case True
  then show ?thesis using axis_slab_parallel_eq [OF True] o t by simp
next
  case False
  then have d: "dir \<noteq> 0" using eps_f32_pos by auto
  let ?a = "(mn - orig) * (1 / dir)" and ?b = "(mx - orig) * (1 / dir)"
  have ab: "min ?a ?b \<le> 0 \<and> 0 \<le> max ?a ?b"
  proof (cases "0 < dir")
    case True
    have "?a \<le> 0" using o True by (simp add: divide_le_0_iff)
    moreover have "0 \<le> ?b" using o True by simp
    ultimately show ?thesis by simp
  next
    case F: False
    then have n: "dir < 0" using d by simp
    have "0 \<le> ?a" using o n by (simp add: zero_le_divide_iff)
    moreover have "?b \<le> 0" using o n by (simp add: divide_le_0_iff)
    ultimately show ?thesis by simp
  qed
  show ?thesis
    using axis_slab_crossing_eq [OF False, of orig mn mx tmin tmax] ab t by simp
qed

lemma ray_aabb_inside:
  assumes "0 \<le> vx ro" "vx ro \<le> real_of_int GRID_X"
    "0 \<le> vy ro" "vy ro \<le> real_of_int GRID_Y"
    "0 \<le> vz ro" "vz ro \<le> real_of_int GRID_Z"
  shows "\<exists>t0 t1. ray_aabb ro rd = Inr (Some (t0, t1)) \<and> t0 \<le> 0 \<and> 0 \<le> t1"
proof -
  have i: "- inf_f32 \<le> 0" "0 \<le> inf_f32" by (simp_all add: inf_f32_def)
  obtain a1 b1 where x:
    "axis_slab (vx ro) (vx rd) 0 (real_of_int GRID_X) (- inf_f32) inf_f32 = Inr (True, a1, b1)"
    "a1 \<le> 0" "0 \<le> b1"
    using axis_slab_inside [OF assms(1,2) i] by blast
  obtain a2 b2 where y:
    "axis_slab (vy ro) (vy rd) 0 (real_of_int GRID_Y) a1 b1 = Inr (True, a2, b2)"
    "a2 \<le> 0" "0 \<le> b2"
    using axis_slab_inside [OF assms(3,4) x(2,3)] by blast
  obtain a3 b3 where z:
    "axis_slab (vz ro) (vz rd) 0 (real_of_int GRID_Z) a2 b2 = Inr (True, a3, b3)"
    "a3 \<le> 0" "0 \<le> b3"
    using axis_slab_inside [OF assms(5,6) y(2,3)] by blast
  have "ray_aabb ro rd = Inr (Some (a3, b3))"
    unfolding ray_aabb_def using z(2,3) by (simp add: x(1) y(1) z(1))
  then show ?thesis using z(2,3) by blast
qed

lemma first_crossing_total: "\<exists>r. first_crossing t0 nb p d = Inr r"
proof (cases "\<bar>d\<bar> > eps_f32")
  case True
  then have "d \<noteq> 0" using eps_f32_pos by auto
  then show ?thesis using True by (simp add: first_crossing_def fdiv_def)
next
  case False
  then show ?thesis by (simp add: first_crossing_def)
qed

lemma clamp_i32_range: "lo \<le> hi \<Longrightarrow> lo \<le> clamp_i32 v lo hi \<and> clamp_i32 v lo hi \<le> hi"
  by (simp add: clamp_i32_def)

lemma first_crossing_no_fault: "first_crossing t0 nb p d \<noteq> Inl e"
  using first_crossing_total [of t0 nb p d] by auto

lemma dda_init_total:
  "\<exists>s. dda_init ro rd t_enter t_ex = Inr s \<and>
       t_cur s = max t_enter 0 \<and> t_exit s = t_ex \<and>
       inside_grid (cell_x s) (cell_y s) (cell_z s) \<and>
       normal s = \<lparr>ix = 0, iy = 1, iz = 0\<rparr> \<and> nsteps s = 0"
proof -
  let ?p = "Vector3Add ro (Vector3Scale rd (max t_enter 0))"
  let ?cx = "clamp_i32 \<lfloor>vx ?p\<rfloor> 0 (GRID_X - 1)"
  let ?cy = "clamp_i32 \<lfloor>vy ?p\<rfloor> 0 (GRID_Y - 1)"
  let ?cz = "clamp_i32 \<lfloor>vz ?p\<rfloor> 0 (GRID_Z - 1)"
  have g: "inside_grid ?cx ?cy ?cz"
    using clamp_i32_range [of 0 "GRID_X - 1" "\<lfloor>vx ?p\<rfloor>"]
      clamp_i32_range [of 0 "GRID_Y - 1" "\<lfloor>vy ?p\<rfloor>"]
      clamp_i32_range [of 0 "GRID_Z - 1" "\<lfloor>vz ?p\<rfloor>"]
    by (simp add: inside_grid_def GRID_X_def GRID_Y_def GRID_Z_def)
  show ?thesis
    unfolding dda_init_def Let_def
    using g by (simp add: first_crossing_no_fault split: sum.split prod.split)
qed

text \<open>
  Claim C2, as amended. Whenever \<open>ray_aabb\<close> reports an intersection, the entry distance
  it returns is at most the exit distance it returns (and so is the entry clamped to
  zero). When the origin lies inside the box, \<open>ray_aabb\<close> reports an intersection whose
  returned entry distance is at most zero (\<open>ray_aabb\<close> itself does not clamp it), and
  the distance the traversal starts from, \<open>t = fmaxf(t_enter, 0)\<close>, is zero.
\<close>

theorem ray_aabb_interval:
  "(ray_aabb ro rd = Inr (Some (t0, t1)) \<longrightarrow> t0 \<le> t1 \<and> max t0 0 \<le> t1) \<and>
   (0 \<le> vx ro \<and> vx ro \<le> real_of_int GRID_X \<and>
    0 \<le> vy ro \<and> vy ro \<le> real_of_int GRID_Y \<and>
    0 \<le> vz ro \<and> vz ro \<le> real_of_int GRID_Z \<longrightarrow>
      (\<exists>t0' t1' s. ray_aabb ro rd = Inr (Some (t0', t1')) \<and> t0' \<le> 0 \<and> 0 \<le> t1' \<and>
                   dda_init ro rd t0' t1' = Inr s \<and> t_cur s = 0))"
proof (rule conjI; rule impI)
  assume "ray_aabb ro rd = Inr (Some (t0, t1))"
  then have "max t0 0 \<le> t1" by (rule ray_aabb_Some_order)
  then show "t0 \<le> t1 \<and> max t0 0 \<le> t1" by simp
next
  assume a: "0 \<le> vx ro \<and> vx ro \<le> real_of_int GRID_X \<and>
    0 \<le> vy ro \<and> vy ro \<le> real_of_int GRID_Y \<and>
    0 \<le> vz ro \<and> vz ro \<le> real_of_int GRID_Z"
  then obtain t0' t1' where r: "ray_aabb ro rd = Inr (Some (t0', t1'))" "t0' \<le> 0" "0 \<le> t1'"
    using ray_aabb_inside [of ro rd] by blast
  obtain s where s: "dda_init ro rd t0' t1' = Inr s" "t_cur s = max t0' 0"
    using dda_init_total [of ro rd t0' t1'] by blast
  have "t_cur s = 0" using s(2) r(2) by simp
  with r s(1) show "\<exists>t0' t1' s. ray_aabb ro rd = Inr (Some (t0', t1')) \<and> t0' \<le> 0 \<and> 0 \<le> t1' \<and>
                   dda_init ro rd t0' t1' = Inr s \<and> t_cur s = 0" by blast
qed

text \<open>
  The claim as stated fails: from the centre of the box along the x axis, \<open>ray_aabb\<close>
  returns the entry distance \<open>-12\<close>, not \<open>0\<close>.
\<close>

lemma ray_aabb_centre: "ray_aabb centre_origin x_axis_dir = Inr (Some (- 12, 12))"
proof -
  have x: "axis_slab 12 1 0 24 (- inf_f32) inf_f32 = Inr (True, - 12, 12)"
    using axis_slab_crossing_eq [of 1 12 0 24 "- inf_f32" inf_f32]
    by (simp add: eps_f32_def inf_f32_def)
  have y: "axis_slab 8 0 0 16 (- 12) 12 = Inr (True, - 12, 12)"
    using axis_slab_parallel_eq [of 0 8 0 16 "- 12" 12] by (simp add: eps_f32_def)
  have z: "axis_slab 12 0 0 24 (- 12) 12 = Inr (True, - 12, 12)"
    using axis_slab_parallel_eq [of 0 12 0 24 "- 12" 12] by (simp add: eps_f32_def)
  show ?thesis
    by (simp add: ray_aabb_def centre_origin_def x_axis_dir_def GRID_X_def GRID_Y_def
        GRID_Z_def x y z)
qed

theorem ray_aabb_entry_counterexample:
  "0 \<le> vx centre_origin \<and> vx centre_origin \<le> real_of_int GRID_X \<and>
   0 \<le> vy centre_origin \<and> vy centre_origin \<le> real_of_int GRID_Y \<and>
   0 \<le> vz centre_origin \<and> vz centre_origin \<le> real_of_int GRID_Z \<and>
   ray_aabb centre_origin x_axis_dir = Inr (Some (- 12, 12)) \<and> (- 12 :: real) \<noteq> 0"
  using ray_aabb_centre
  by (simp add: centre_origin_def GRID_X_def GRID_Y_def GRID_Z_def)

text \<open>The instance of the amended claim at the same ray.\<close>

theorem ray_aabb_interval_witness:
  "ray_aabb centre_origin x_axis_dir = Inr (Some (- 12, 12)) \<and>
   (- 12 :: real) \<le> 12 \<and> max (- 12 :: real) 0 \<le> 12 \<and>
   0 \<le> vx centre_origin \<and> vx centre_origin \<le> real_of_int GRID_X \<and>
   0 \<le> vy centre_origin \<and> vy centre_origin \<le> real_of_int GRID_Y \<and>
   0 \<le> vz centre_origin \<and> vz centre_origin \<le> real_of_int GRID_Z \<and>
   (\<exists>s. dda_init centre_origin x_axis_dir (- 12) 12 = Inr s \<and> t_cur s = 0)"
proof -
  have b: "0 \<le> vx centre_origin \<and> vx centre_origin \<le> real_of_int GRID_X \<and>
     0 \<le> vy centre_origin \<and> vy centre_origin \<le> real_of_int GRID_Y \<and>
     0 \<le> vz centre_origin \<and> vz centre_origin \<le> real_of_int GRID_Z"
    by (simp add: centre_origin_def GRID_X_def GRID_Y_def GRID_Z_def)
  show ?thesis
    using ray_aabb_interval [of centre_origin x_axis_dir "- 12" 12] b ray_aabb_centre
    by auto
qed

subsection \<open>The traversal loop\<close>

lemma read_voxel_inside:
  "inside_grid x y z \<Longrightarrow>
   read_voxel vox (voxel_index x y z) = Inr (vox ! nat (voxel_index x y z))"
  using inside_grid_index [of x y z] by (simp add: read_voxel_def)

lemma dda_loop_done: "\<not> i < 256 \<Longrightarrow> dda_loop vox rd i s = Inr (miss_result rd s)"
  by (simp add: dda_loop.simps)

lemma dda_loop_break:
  "\<not> inside_grid (cell_x s) (cell_y s) (cell_z s) \<or> t_cur s > t_exit s \<Longrightarrow>
   dda_loop vox rd i s = Inr (miss_result rd s)"
  by (simp add: dda_loop.simps)

lemma dda_loop_hit:
  "i < 256 \<Longrightarrow> inside_grid (cell_x s) (cell_y s) (cell_z s) \<Longrightarrow> \<not> t_cur s > t_exit s \<Longrightarrow>
   read_voxel vox (voxel_index (cell_x s) (cell_y s) (cell_z s)) = Inr ident \<Longrightarrow>
   ident \<noteq> 0 \<Longrightarrow>
   dda_loop vox rd i s = Inr (hit_result ident (s\<lparr>nsteps := nsteps s + 1\<rparr>))"
  by (subst dda_loop.simps) simp

lemma dda_loop_empty:
  "i < 256 \<Longrightarrow> inside_grid (cell_x s) (cell_y s) (cell_z s) \<Longrightarrow> \<not> t_cur s > t_exit s \<Longrightarrow>
   read_voxel vox (voxel_index (cell_x s) (cell_y s) (cell_z s)) = Inr 0 \<Longrightarrow>
   dda_loop vox rd i s = dda_loop vox rd (i + 1) (dda_advance (s\<lparr>nsteps := nsteps s + 1\<rparr>))"
  by (subst dda_loop.simps) simp

lemma nsteps_dda_advance: "nsteps (dda_advance s) = nsteps s"
  by (simp add: dda_advance_def)

lemma steps_miss_result: "steps (miss_result rd s) = nsteps s"
  by (simp add: miss_result_def Let_def)

lemma steps_hit_result: "steps (hit_result ident s) = nsteps s"
  by (simp add: hit_result_def Let_def)

lemma dda_loop_steps:
  "\<exists>r. dda_loop vox rd i s = Inr r \<and> nsteps s \<le> steps r \<and>
       steps r \<le> nsteps s + max 0 (256 - i)"
proof (induction vox rd i s rule: dda_loop.induct)
  case (1 vox rd i s)
  show ?case
  proof (cases "i < 256")
    case False
    then show ?thesis by (simp add: dda_loop_done steps_miss_result)
  next
    case lt: True
    show ?thesis
    proof (cases "\<not> inside_grid (cell_x s) (cell_y s) (cell_z s) \<or> t_cur s > t_exit s")
      case True
      then show ?thesis by (simp add: dda_loop_break steps_miss_result)
    next
      case False
      then have g: "inside_grid (cell_x s) (cell_y s) (cell_z s)" and t: "\<not> t_cur s > t_exit s"
        by simp_all
      let ?ident = "vox ! nat (voxel_index (cell_x s) (cell_y s) (cell_z s))"
      have rv: "read_voxel vox (voxel_index (cell_x s) (cell_y s) (cell_z s)) = Inr ?ident"
        using g by (rule read_voxel_inside)
      show ?thesis
      proof (cases "?ident = 0")
        case nz: False
        show ?thesis
          using dda_loop_hit [OF lt g t rv nz, of rd] lt by (simp add: steps_hit_result)
      next
        case z: True
        have e: "dda_loop vox rd i s
                 = dda_loop vox rd (i + 1) (dda_advance (s\<lparr>nsteps := nsteps s + 1\<rparr>))"
          using dda_loop_empty [OF lt g t, of vox rd] rv z by simp
        have nn: "\<not> ?ident \<noteq> 0" using z by simp
        obtain r where r: "dda_loop vox rd (i + 1) (dda_advance (s\<lparr>nsteps := nsteps s + 1\<rparr>)) = Inr r"
          "nsteps (dda_advance (s\<lparr>nsteps := nsteps s + 1\<rparr>)) \<le> steps r"
          "steps r \<le> nsteps (dda_advance (s\<lparr>nsteps := nsteps s + 1\<rparr>)) + max 0 (256 - (i + 1))"
          using "1.IH" [OF lt False rv nn] by blast
        show ?thesis
          using e r lt by (simp add: nsteps_dda_advance)
      qed
    qed
  qed
qed

lemma dda_loop_first:
  assumes "i < 256" "inside_grid (cell_x s) (cell_y s) (cell_z s)" "\<not> t_cur s > t_exit s"
  shows "\<exists>r. dda_loop vox rd i s = Inr r \<and> nsteps s + 1 \<le> steps r \<and>
             steps r \<le> nsteps s + (256 - i)"
proof -
  let ?ident = "vox ! nat (voxel_index (cell_x s) (cell_y s) (cell_z s))"
  have rv: "read_voxel vox (voxel_index (cell_x s) (cell_y s) (cell_z s)) = Inr ?ident"
    using assms(2) by (rule read_voxel_inside)
  show ?thesis
  proof (cases "?ident = 0")
    case nz: False
    show ?thesis
      using dda_loop_hit [OF assms rv nz, of rd] assms(1) by (simp add: steps_hit_result)
  next
    case z: True
    have e: "dda_loop vox rd i s
             = dda_loop vox rd (i + 1) (dda_advance (s\<lparr>nsteps := nsteps s + 1\<rparr>))"
      using dda_loop_empty [OF assms, of vox rd] rv z by simp
    show ?thesis
      using dda_loop_steps [of vox rd "i + 1" "dda_advance (s\<lparr>nsteps := nsteps s + 1\<rparr>)"]
        e assms(1) by (auto simp add: nsteps_dda_advance)
  qed
qed

lemma trace_clipped:
  assumes "ray_aabb ro rd = Inr (Some (t0, t1))"
  shows "\<exists>r. trace_ray_amanatides_woo vox ro rd = Inr r \<and> 1 \<le> steps r \<and> steps r \<le> 256"
proof -
  obtain s where s: "dda_init ro rd t0 t1 = Inr s" "t_cur s = max t0 0" "t_exit s = t1"
    "inside_grid (cell_x s) (cell_y s) (cell_z s)" "nsteps s = 0"
    using dda_init_total [of ro rd t0 t1] by blast
  have "\<not> t_cur s > t_exit s"
    using ray_aabb_Some_order [OF assms] s(2,3) by linarith
  then obtain r where "dda_loop vox rd 0 s = Inr r" "nsteps s + 1 \<le> steps r"
    "steps r \<le> nsteps s + (256 - 0)"
    using dda_loop_first [of 0 s vox rd] s(4) by auto
  then show ?thesis
    using assms s(1,5) by (simp add: trace_ray_amanatides_woo_def)
qed

lemma trace_total: "\<exists>r. trace_ray_amanatides_woo vox ro rd = Inr r"
proof -
  obtain c where c: "ray_aabb ro rd = Inr c" using ray_aabb_total by blast
  show ?thesis
  proof (cases c)
    case None
    then show ?thesis using c by (simp add: trace_ray_amanatides_woo_def Let_def)
  next
    case (Some p)
    then obtain t0 t1 where "ray_aabb ro rd = Inr (Some (t0, t1))"
      using c by (cases p) simp
    then show ?thesis using trace_clipped by blast
  qed
qed

subsection \<open>The axis the traversal advances on\<close>

lemma ray_aabb_diag: "ray_aabb half_origin diag_dir = Inr (Some (- (1 / 2), 31 / 2))"
proof -
  have x: "axis_slab (1 / 2) 1 0 24 (- inf_f32) inf_f32 = Inr (True, - (1 / 2), 47 / 2)"
    using axis_slab_crossing_eq [of 1 "1 / 2" 0 24 "- inf_f32" inf_f32]
    by (simp add: eps_f32_def inf_f32_def)
  have y: "axis_slab (1 / 2) 1 0 16 (- (1 / 2)) (47 / 2) = Inr (True, - (1 / 2), 31 / 2)"
    using axis_slab_crossing_eq [of 1 "1 / 2" 0 16 "- (1 / 2)" "47 / 2"]
    by (simp add: eps_f32_def)
  have z: "axis_slab (1 / 2) 0 0 24 (- (1 / 2)) (31 / 2) = Inr (True, - (1 / 2), 31 / 2)"
    using axis_slab_parallel_eq [of 0 "1 / 2" 0 24 "- (1 / 2)" "31 / 2"] by (simp add: eps_f32_def)
  show ?thesis
    by (simp add: ray_aabb_def half_origin_def diag_dir_def GRID_X_def GRID_Y_def
        GRID_Z_def x y z)
qed

lemma dda_init_diag: "dda_init half_origin diag_dir (- (1 / 2)) (31 / 2) = Inr tie_state"
proof -
  have a: "first_crossing 0 1 (1 / 2) 1 = Inr (1 / 2, 1)"
    by (simp add: first_crossing_def fdiv_def eps_f32_def)
  have b: "first_crossing 0 0 (1 / 2) 0 = Inr (inf_f32, inf_f32)"
    by (simp add: first_crossing_def eps_f32_def)
  show ?thesis
    by (simp add: dda_init_def half_origin_def diag_dir_def Vector3Add_def Vector3Scale_def
        clamp_i32_def GRID_X_def GRID_Y_def GRID_Z_def a b tie_state_def)
qed

text \<open>
  Claim C1, as amended. Every iteration of the loop that finds the current voxel empty
  continues with \<open>dda_advance\<close>, and the axis advanced has the smallest \<open>tMax\<close> of the
  three: \<open>t\<close> becomes the minimum of \<open>t_max_x\<close>, \<open>t_max_y\<close> and \<open>t_max_z\<close>. Ties go to
  the later axis: x advances only when its \<open>tMax\<close> is strictly below both others, y
  advances when its \<open>tMax\<close> is strictly below that of z and not above that of x, and z
  advances whenever its \<open>tMax\<close> is not above the two others (z before y before x).
\<close>

theorem dda_advance_axis:
  "t_cur (dda_advance s) = min (t_max_x s) (min (t_max_y s) (t_max_z s)) \<and>
   (t_max_x s < t_max_y s \<and> t_max_x s < t_max_z s \<longrightarrow>
      dda_advance s =
        s\<lparr>cell_x := cell_x s + ix (step s), t_cur := t_max_x s,
          t_max_x := t_max_x s + t_delta_x s,
          normal := \<lparr>ix = - ix (step s), iy = 0, iz = 0\<rparr>\<rparr>) \<and>
   (t_max_y s \<le> t_max_x s \<and> t_max_y s < t_max_z s \<longrightarrow>
      dda_advance s =
        s\<lparr>cell_y := cell_y s + iy (step s), t_cur := t_max_y s,
          t_max_y := t_max_y s + t_delta_y s,
          normal := \<lparr>ix = 0, iy = - iy (step s), iz = 0\<rparr>\<rparr>) \<and>
   (t_max_z s \<le> t_max_x s \<and> t_max_z s \<le> t_max_y s \<longrightarrow>
      dda_advance s =
        s\<lparr>cell_z := cell_z s + iz (step s), t_cur := t_max_z s,
          t_max_z := t_max_z s + t_delta_z s,
          normal := \<lparr>ix = 0, iy = 0, iz = - iz (step s)\<rparr>\<rparr>) \<and>
   (i < 256 \<and> inside_grid (cell_x s) (cell_y s) (cell_z s) \<and> \<not> t_cur s > t_exit s \<and>
    read_voxel vox (voxel_index (cell_x s) (cell_y s) (cell_z s)) = Inr 0 \<longrightarrow>
      dda_loop vox rd i s
        = dda_loop vox rd (i + 1) (dda_advance (s\<lparr>nsteps := nsteps s + 1\<rparr>)))"
proof (intro conjI)
  show "t_cur (dda_advance s) = min (t_max_x s) (min (t_max_y s) (t_max_z s))"
    by (simp add: dda_advance_def min_def)
next
  show "t_max_x s < t_max_y s \<and> t_max_x s < t_max_z s \<longrightarrow>
      dda_advance s =
        s\<lparr>cell_x := cell_x s + ix (step s), t_cur := t_max_x s,
          t_max_x := t_max_x s + t_delta_x s,
          normal := \<lparr>ix = - ix (step s), iy = 0, iz = 0\<rparr>\<rparr>"
    by (simp add: dda_advance_def)
next
  show "t_max_y s \<le> t_max_x s \<and> t_max_y s < t_max_z s \<longrightarrow>
      dda_advance s =
        s\<lparr>cell_y := cell_y s + iy (step s), t_cur := t_max_y s,
          t_max_y := t_max_y s + t_delta_y s,
          normal := \<lparr>ix = 0, iy = - iy (step s), iz = 0\<rparr>\<rparr>"
    by (simp add: dda_advance_def)
next
  show "t_max_z s \<le> t_max_x s \<and> t_max_z s \<le> t_max_y s \<longrightarrow>
      dda_advance s =
        s\<lparr>cell_z := cell_z s + iz (step s), t_cur := t_max_z s,
          t_max_z := t_max_z s + t_delta_z s,
          normal := \<lparr>ix = 0, iy = 0, iz = - iz (step s)\<rparr>\<rparr>"
    by (simp add: dda_advance_def)
next
  show "i < 256 \<and> inside_grid (cell_x s) (cell_y s) (cell_z s) \<and> \<not> t_cur s > t_exit s \<and>
    read_voxel vox (voxel_index (cell_x s) (cell_y s) (cell_z s)) = Inr 0 \<longrightarrow>
      dda_loop vox rd i s
        = dda_loop vox rd (i + 1) (dda_advance (s\<lparr>nsteps := nsteps s + 1\<rparr>))"
    using dda_loop_empty by blast
qed

lemma tie_state_facts:
  "t_max_x tie_state = t_max_y tie_state" "t_max_y tie_state < t_max_z tie_state"
  "inside_grid (cell_x tie_state) (cell_y tie_state) (cell_z tie_state)"
  "\<not> t_cur tie_state > t_exit tie_state"
  "read_voxel (voxels blank_state) (voxel_index (cell_x tie_state) (cell_y tie_state) (cell_z tie_state)) = Inr 0"
  by (simp_all add: tie_state_def inf_f32_def inside_grid_def GRID_X_def GRID_Y_def GRID_Z_def
      read_voxel_def voxel_index_def GRID_SIZE_def blank_state_def)

text \<open>
  The claim as stated fails on the tie-break order: for the diagonal ray over the empty
  grid the first iteration has \<open>t_max_x = t_max_y < t_max_z\<close>, and the cell moves along
  y, not along x.
\<close>

theorem tie_break_counterexample:
  "ray_aabb half_origin diag_dir = Inr (Some (- (1 / 2), 31 / 2)) \<and>
   dda_init half_origin diag_dir (- (1 / 2)) (31 / 2) = Inr tie_state \<and>
   read_voxel (voxels blank_state)
     (voxel_index (cell_x tie_state) (cell_y tie_state) (cell_z tie_state)) = Inr 0 \<and>
   t_max_x tie_state = t_max_y tie_state \<and> t_max_x tie_state < t_max_z tie_state \<and>
   cell_x (dda_advance (tie_state\<lparr>nsteps := nsteps tie_state + 1\<rparr>)) = cell_x tie_state \<and>
   cell_y (dda_advance (tie_state\<lparr>nsteps := nsteps tie_state + 1\<rparr>))
     = cell_y tie_state + iy (step tie_state) \<and>
   iy (step tie_state) = 1"
  using ray_aabb_diag dda_init_diag tie_state_facts(5)
  by (simp add: dda_advance_def tie_state_def inf_f32_def)

text \<open>
  The instances: the tie of x and y (y advances), x strictly first (x advances), and
  all three equal (z advances).
\<close>

theorem dda_advance_axis_witness:
  "t_max_y tie_state \<le> t_max_x tie_state \<and> t_max_y tie_state < t_max_z tie_state \<and>
   dda_advance tie_state =
     tie_state\<lparr>cell_y := cell_y tie_state + iy (step tie_state), t_cur := t_max_y tie_state,
       t_max_y := t_max_y tie_state + t_delta_y tie_state,
       normal := \<lparr>ix = 0, iy = - iy (step tie_state), iz = 0\<rparr>\<rparr> \<and>
   t_cur (dda_advance tie_state) = 1 / 2 \<and>
   dda_loop (voxels blank_state) diag_dir 0 tie_state
     = dda_loop (voxels blank_state) diag_dir (0 + 1)
         (dda_advance (tie_state\<lparr>nsteps := nsteps tie_state + 1\<rparr>)) \<and>
   t_max_x (tie_state\<lparr>t_max_x := 1 / 4\<rparr>) < t_max_y (tie_state\<lparr>t_max_x := 1 / 4\<rparr>) \<and>
   t_max_x (tie_state\<lparr>t_max_x := 1 / 4\<rparr>) < t_max_z (tie_state\<lparr>t_max_x := 1 / 4\<rparr>) \<and>
   cell_x (dda_advance (tie_state\<lparr>t_max_x := 1 / 4\<rparr>)) = 1 \<and>
   t_max_z (tie_state\<lparr>t_max_z := 1 / 2\<rparr>) \<le> t_max_x (tie_state\<lparr>t_max_z := 1 / 2\<rparr>) \<and>
   t_max_z (tie_state\<lparr>t_max_z := 1 / 2\<rparr>) \<le> t_max_y (tie_state\<lparr>t_max_z := 1 / 2\<rparr>) \<and>
   cell_z (dda_advance (tie_state\<lparr>t_max_z := 1 / 2\<rparr>)) = - 1"
proof -
  note t = dda_advance_axis [where s = tie_state and i = 0 and vox = "voxels blank_state"
      and rd = diag_dir]
  have m: "min (t_max_x tie_state) (min (t_max_y tie_state) (t_max_z tie_state)) = 1 / 2"
    by (simp add: tie_state_def inf_f32_def)
  have y: "t_max_y tie_state \<le> t_max_x tie_state \<and> t_max_y tie_state < t_max_z tie_state \<and>
     dda_advance tie_state =
     tie_state\<lparr>cell_y := cell_y tie_state + iy (step tie_state), t_cur := t_max_y tie_state,
       t_max_y := t_max_y tie_state + t_delta_y tie_state,
       normal := \<lparr>ix = 0, iy = - iy (step tie_state), iz = 0\<rparr>\<rparr> \<and>
     t_cur (dda_advance tie_state) = 1 / 2 \<and>
     dda_loop (voxels blank_state) diag_dir 0 tie_state
     = dda_loop (voxels blank_state) diag_dir (0 + 1)
         (dda_advance (tie_state\<lparr>nsteps := nsteps tie_state + 1\<rparr>))"
    using t tie_state_facts m by simp
  have hx: "t_max_x (tie_state\<lparr>t_max_x := 1 / 4\<rparr>) < t_max_y (tie_state\<lparr>t_max_x := 1 / 4\<rparr>) \<and>
     t_max_x (tie_state\<lparr>t_max_x := 1 / 4\<rparr>) < t_max_z (tie_state\<lparr>t_max_x := 1 / 4\<rparr>)"
    by (simp add: tie_state_def inf_f32_def)
  have x: "cell_x (dda_advance (tie_state\<lparr>t_max_x := 1 / 4\<rparr>)) = 1"
    using dda_advance_axis [where s = "tie_state\<lparr>t_max_x := 1 / 4\<rparr>"] hx
    by (simp add: tie_state_def)
  have hz: "t_max_z (tie_state\<lparr>t_max_z := 1 / 2\<rparr>) \<le> t_max_x (tie_state\<lparr>t_max_z := 1 / 2\<rparr>) \<and>
     t_max_z (tie_state\<lparr>t_max_z := 1 / 2\<rparr>) \<le> t_max_y (tie_state\<lparr>t_max_z := 1 / 2\<rparr>)"
    by (simp add: tie_state_def)
  have z: "cell_z (dda_advance (tie_state\<lparr>t_max_z := 1 / 2\<rparr>)) = - 1"
    using dda_advance_axis [where s = "tie_state\<lparr>t_max_z := 1 / 2\<rparr>"] hz
    by (simp add: tie_state_def)
  from y hx x hz z show ?thesis by blast
qed

subsection \<open>Step count, bounds of the reads, and the first cell\<close>

text \<open>
  Claim C3. \<open>trace_ray_amanatides_woo\<close> always returns, with a step count of at most
  256; when \<open>ray_aabb\<close> succeeds the step count is at least 1, so at least one voxel is
  tested.
\<close>

theorem trace_steps_range:
  "(\<exists>r. trace_ray_amanatides_woo vox ro rd = Inr r \<and> 0 \<le> steps r \<and> steps r \<le> 256) \<and>
   (ray_aabb ro rd = Inr (Some (t0, t1)) \<longrightarrow>
      (\<exists>r. trace_ray_amanatides_woo vox ro rd = Inr r \<and> 1 \<le> steps r \<and> steps r \<le> 256))"
proof (rule conjI)
  obtain c where c: "ray_aabb ro rd = Inr c" using ray_aabb_total by blast
  show "\<exists>r. trace_ray_amanatides_woo vox ro rd = Inr r \<and> 0 \<le> steps r \<and> steps r \<le> 256"
  proof (cases c)
    case None
    then show ?thesis using c by (simp add: trace_ray_amanatides_woo_def Let_def)
  next
    case (Some p)
    then obtain a b where "ray_aabb ro rd = Inr (Some (a, b))"
      using c by (cases p) simp
    then obtain r where "trace_ray_amanatides_woo vox ro rd = Inr r" "1 \<le> steps r" "steps r \<le> 256"
      using trace_clipped by blast
    then show ?thesis by auto
  qed
next
  show "ray_aabb ro rd = Inr (Some (t0, t1)) \<longrightarrow>
      (\<exists>r. trace_ray_amanatides_woo vox ro rd = Inr r \<and> 1 \<le> steps r \<and> steps r \<le> 256)"
    using trace_clipped by blast
qed


text \<open>
  The ray from the centre of the empty grid along x, evaluated: it tests the twelve cells
  \<open>x = 12, ..., 23\<close> and leaves the grid.
\<close>

lemma dda_init_centre:
  "dda_init centre_origin x_axis_dir (- 12) 12 =
     Inr \<lparr>cell_x = 12, cell_y = 8, cell_z = 12, step = \<lparr>ix = 1, iy = - 1, iz = - 1\<rparr>,
      t_cur = 0, t_exit = 12,
      t_max_x = 1, t_max_y = inf_f32, t_max_z = inf_f32,
      t_delta_x = 1, t_delta_y = inf_f32, t_delta_z = inf_f32,
      normal = \<lparr>ix = 0, iy = 1, iz = 0\<rparr>, nsteps = 0\<rparr>"
proof -
  have a: "first_crossing 0 13 12 1 = Inr (1, 1)"
    by (simp add: first_crossing_def fdiv_def eps_f32_def)
  have b: "first_crossing 0 8 8 0 = Inr (inf_f32, inf_f32)"
     "first_crossing 0 12 12 0 = Inr (inf_f32, inf_f32)"
    by (simp_all add: first_crossing_def eps_f32_def)
  show ?thesis
    by (simp add: dda_init_def centre_origin_def x_axis_dir_def Vector3Add_def Vector3Scale_def
        clamp_i32_def GRID_X_def GRID_Y_def GRID_Z_def a b)
qed

lemma trace_centre_steps:
  "trace_ray_amanatides_woo (voxels blank_state) centre_origin x_axis_dir =
     Inr \<lparr>hit = False, entered_grid = True, steps = 12,
          col = \<lparr>vx = 0.65, vy = 0.75, vz = 0.95\<rparr>\<rparr>"
proof -
  have m: "miss_result x_axis_dir s = \<lparr>hit = False, entered_grid = True, steps = nsteps s,
          col = \<lparr>vx = 0.65, vy = 0.75, vz = 0.95\<rparr>\<rparr>" for s
    by (simp add: miss_result_def clamp_f32_def x_axis_dir_def)
  have v: "voxels blank_state = replicate 9216 0" by (simp add: blank_state_def)
  show ?thesis
    by (simp add: trace_ray_amanatides_woo_def ray_aabb_centre dda_init_centre v
        dda_loop.simps dda_advance_def inside_grid_def GRID_X_def GRID_Y_def
        GRID_Z_def read_voxel_def voxel_index_def GRID_SIZE_def inf_f32_def m)
qed

theorem trace_steps_range_witness:
  "ray_aabb centre_origin x_axis_dir = Inr (Some (- 12, 12)) \<and>
   (\<exists>r. trace_ray_amanatides_woo (voxels blank_state) centre_origin x_axis_dir = Inr r \<and>
        1 \<le> steps r \<and> steps r \<le> 256 \<and> steps r = 12)"
  using trace_steps_range [of "voxels blank_state" centre_origin x_axis_dir "- 12" 12]
    ray_aabb_centre trace_centre_steps
  by simp

text \<open>
  Claim C5. A cell for which \<open>inside_grid\<close> holds has a linear index in
  \<open>[0, GRID_SIZE)\<close>, so the read of the voxel array at it is inside the array. The loop
  reads only after that test: from any loop state and any iteration it returns a result,
  never the fault \<open>OutOfBounds\<close>, and so does the whole traversal of any ray. When the
  cell has left the grid the loop ends with the miss result without a read.
\<close>

theorem dda_reads_in_bounds:
  "(inside_grid x y z \<longrightarrow>
      0 \<le> voxel_index x y z \<and> voxel_index x y z < GRID_SIZE \<and>
      read_voxel vox (voxel_index x y z) = Inr (vox ! nat (voxel_index x y z))) \<and>
   (\<not> inside_grid (cell_x s) (cell_y s) (cell_z s) \<longrightarrow>
      dda_loop vox rd i s = Inr (miss_result rd s)) \<and>
   (\<exists>r. dda_loop vox rd i s = Inr r) \<and>
   (\<exists>r. trace_ray_amanatides_woo vox ro rd = Inr r)"
proof (intro conjI)
  show "inside_grid x y z \<longrightarrow>
      0 \<le> voxel_index x y z \<and> voxel_index x y z < GRID_SIZE \<and>
      read_voxel vox (voxel_index x y z) = Inr (vox ! nat (voxel_index x y z))"
    using inside_grid_index read_voxel_inside by blast
next
  show "\<not> inside_grid (cell_x s) (cell_y s) (cell_z s) \<longrightarrow>
      dda_loop vox rd i s = Inr (miss_result rd s)"
    using dda_loop_break by blast
next
  show "\<exists>r. dda_loop vox rd i s = Inr r"
    using dda_loop_steps [of vox rd i s] by blast
next
  show "\<exists>r. trace_ray_amanatides_woo vox ro rd = Inr r"
    by (rule trace_total)
qed

text \<open>The instance: the last cell of the grid, and a state whose cell is at \<open>x = 24\<close>.\<close>

theorem dda_reads_in_bounds_witness:
  "inside_grid 23 15 23 \<and> voxel_index 23 15 23 = 9215 \<and> GRID_SIZE = 9216 \<and>
   read_voxel corner_voxel (voxel_index 23 15 23) = Inr (corner_voxel ! nat (voxel_index 23 15 23)) \<and>
   \<not> inside_grid (cell_x outside_state) (cell_y outside_state) (cell_z outside_state) \<and>
   dda_loop corner_voxel x_axis_dir 5 outside_state = Inr (miss_result x_axis_dir outside_state)"
proof -
  have a: "inside_grid 23 15 23"
    by (simp add: inside_grid_def GRID_X_def GRID_Y_def GRID_Z_def)
  have b: "voxel_index 23 15 23 = 9215" "GRID_SIZE = 9216"
    by (simp_all add: voxel_index_def GRID_SIZE_def GRID_X_def GRID_Y_def GRID_Z_def)
  have c: "\<not> inside_grid (cell_x outside_state) (cell_y outside_state) (cell_z outside_state)"
    by (simp add: outside_state_def west_state_def inside_grid_def GRID_X_def)
  note t = dda_reads_in_bounds [where x = 23 and y = 15 and z = 23 and vox = corner_voxel
      and s = outside_state and rd = x_axis_dir and i = 5]
  from t a have 1: "read_voxel corner_voxel (voxel_index 23 15 23)
      = Inr (corner_voxel ! nat (voxel_index 23 15 23))" by blast
  from t c have 2: "dda_loop corner_voxel x_axis_dir 5 outside_state
      = Inr (miss_result x_axis_dir outside_state)" by blast
  from a b c 1 2 show ?thesis by blast
qed

lemma ray_aabb_west: "ray_aabb west_origin x_axis_dir = Inr (Some (1, 25))"
proof -
  have x: "axis_slab (- 1) 1 0 24 (- inf_f32) inf_f32 = Inr (True, 1, 25)"
    using axis_slab_crossing_eq [of 1 "- 1" 0 24 "- inf_f32" inf_f32]
    by (simp add: eps_f32_def inf_f32_def)
  have y: "axis_slab (1 / 2) 0 0 16 1 25 = Inr (True, 1, 25)"
    using axis_slab_parallel_eq [of 0 "1 / 2" 0 16 1 25] by (simp add: eps_f32_def)
  have z: "axis_slab (1 / 2) 0 0 24 1 25 = Inr (True, 1, 25)"
    using axis_slab_parallel_eq [of 0 "1 / 2" 0 24 1 25] by (simp add: eps_f32_def)
  show ?thesis
    by (simp add: ray_aabb_def west_origin_def x_axis_dir_def GRID_X_def GRID_Y_def
        GRID_Z_def x y z)
qed

lemma dda_init_west: "dda_init west_origin x_axis_dir 1 25 = Inr west_state"
proof -
  have a: "first_crossing 1 1 0 1 = Inr (2, 1)"
    by (simp add: first_crossing_def fdiv_def eps_f32_def)
  have b: "first_crossing 1 0 (1 / 2) 0 = Inr (inf_f32, inf_f32)"
    by (simp add: first_crossing_def eps_f32_def)
  show ?thesis
    by (simp add: dda_init_def west_origin_def x_axis_dir_def Vector3Add_def Vector3Scale_def
        clamp_i32_def GRID_X_def GRID_Y_def GRID_Z_def a b west_state_def)
qed

text \<open>
  Claim C10. When the clip succeeds and the voxel of the initial (clamped) cell is not
  empty, the traversal returns a hit after one step, shaded with the normal
  \<open>(0, 1, 0)\<close> the state is initialised with: the Lambert term is the y component of
  \<open>LIGHT_DIR\<close>, whichever face of the box the ray entered through.
\<close>

theorem first_cell_hit_default_normal:
  "ray_aabb ro rd = Inr (Some (t0, t1)) \<and> dda_init ro rd t0 t1 = Inr s \<and>
   read_voxel vox (voxel_index (cell_x s) (cell_y s) (cell_z s)) = Inr ident \<and> ident \<noteq> 0 \<longrightarrow>
     normal s = \<lparr>ix = 0, iy = 1, iz = 0\<rparr> \<and>
     trace_ray_amanatides_woo vox ro rd =
       Inr \<lparr>hit = True, entered_grid = True, steps = 1,
            col = Vector3Scale (sample_voxel_color ident)
                    (0.2 + 0.8 * vy LIGHT_DIR
                       * (0.7 + 0.3 * (real_of_int (cell_y s) / real_of_int GRID_Y)))\<rparr>"
proof (rule impI)
  assume a: "ray_aabb ro rd = Inr (Some (t0, t1)) \<and> dda_init ro rd t0 t1 = Inr s \<and>
   read_voxel vox (voxel_index (cell_x s) (cell_y s) (cell_z s)) = Inr ident \<and> ident \<noteq> 0"
  then have c: "ray_aabb ro rd = Inr (Some (t0, t1))" and i: "dda_init ro rd t0 t1 = Inr s"
    and rv: "read_voxel vox (voxel_index (cell_x s) (cell_y s) (cell_z s)) = Inr ident"
    and nz: "ident \<noteq> 0" by simp_all
  have s: "t_cur s = max t0 0" "t_exit s = t1" "inside_grid (cell_x s) (cell_y s) (cell_z s)"
    "normal s = \<lparr>ix = 0, iy = 1, iz = 0\<rparr>" "nsteps s = 0"
    using dda_init_total [of ro rd t0 t1] i by auto
  have t: "\<not> t_cur s > t_exit s"
    using ray_aabb_Some_order [OF c] s(1,2) by linarith
  have l: "0 \<le> vy LIGHT_DIR" by (simp add: LIGHT_DIR_def)
  have "dda_loop vox rd 0 s = Inr (hit_result ident (s\<lparr>nsteps := nsteps s + 1\<rparr>))"
    using dda_loop_hit [OF _ s(3) t rv nz, of 0 rd] by simp
  moreover have "hit_result ident (s\<lparr>nsteps := nsteps s + 1\<rparr>) =
       \<lparr>hit = True, entered_grid = True, steps = 1,
            col = Vector3Scale (sample_voxel_color ident)
                    (0.2 + 0.8 * vy LIGHT_DIR
                       * (0.7 + 0.3 * (real_of_int (cell_y s) / real_of_int GRID_Y)))\<rparr>"
    using l by (simp add: hit_result_def Let_def s(4,5) Vector3DotProduct_def)
  ultimately show "normal s = \<lparr>ix = 0, iy = 1, iz = 0\<rparr> \<and>
     trace_ray_amanatides_woo vox ro rd =
       Inr \<lparr>hit = True, entered_grid = True, steps = 1,
            col = Vector3Scale (sample_voxel_color ident)
                    (0.2 + 0.8 * vy LIGHT_DIR
                       * (0.7 + 0.3 * (real_of_int (cell_y s) / real_of_int GRID_Y)))\<rparr>"
    using s(4) c i by (simp add: trace_ray_amanatides_woo_def)
qed

text \<open>
  The instance: the ray enters through the face \<open>x = 0\<close> into the occupied cell
  \<open>(0, 0, 0)\<close> and is shaded with the normal \<open>(0, 1, 0)\<close>.
\<close>

theorem first_cell_hit_default_normal_witness:
  "ray_aabb west_origin x_axis_dir = Inr (Some (1, 25)) \<and>
   dda_init west_origin x_axis_dir 1 25 = Inr west_state \<and>
   read_voxel corner_voxel
     (voxel_index (cell_x west_state) (cell_y west_state) (cell_z west_state)) = Inr 2 \<and>
   (2 :: 8 word) \<noteq> 0 \<and>
   normal west_state = \<lparr>ix = 0, iy = 1, iz = 0\<rparr> \<and>
   trace_ray_amanatides_woo corner_voxel west_origin x_axis_dir =
     Inr \<lparr>hit = True, entered_grid = True, steps = 1,
          col = Vector3Scale (sample_voxel_color 2)
                  (0.2 + 0.8 * vy LIGHT_DIR
                     * (0.7 + 0.3 * (real_of_int (cell_y west_state) / real_of_int GRID_Y)))\<rparr>"
proof -
  have r: "read_voxel corner_voxel
     (voxel_index (cell_x west_state) (cell_y west_state) (cell_z west_state)) = Inr 2"
    by (simp add: read_voxel_def corner_voxel_def west_state_def voxel_index_def GRID_SIZE_def
        GRID_X_def GRID_Y_def GRID_Z_def)
  have n: "(2 :: 8 word) \<noteq> 0" by simp
  show ?thesis
    using first_cell_hit_default_normal [of west_origin x_axis_dir 1 25 west_state corner_voxel 2]
      ray_aabb_west dda_init_west r n
    by simp
qed

subsection \<open>The frame renderer returns, and its statistics\<close>

lemma fold_stats_keeps:
  "rays (fold_stats tr st) = rays st \<and> rays_per_sec (fold_stats tr st) = rays_per_sec st \<and>
   steps_per_sec (fold_stats tr st) = steps_per_sec st"
  by (simp add: fold_stats_def Let_def)

lemma render_row_end: "\<not> x < IMG_W \<Longrightarrow> render_row vox c x ray pidx px st = Inr (px, st)"
  by (simp add: render_row.simps)

lemma render_row_step:
  assumes "x < IMG_W" "0 \<le> pidx" "pidx < IMG_W * IMG_H"
    and "trace_ray_amanatides_woo vox (cam c) (Vector3Normalize ray) = Inr tr"
  shows "render_row vox c x ray pidx px st =
         render_row vox c (x + 1) (Vector3Add ray (ray_step_x c)) (pidx + 1)
           (px[nat pidx := pixel_color tr]) (fold_stats tr st)"
  using assms by (subst render_row.simps) (simp add: write_pixel_def)

lemma render_row_total:
  assumes "0 \<le> pidx" "pidx + (IMG_W - x) \<le> IMG_W * IMG_H"
  shows "\<exists>px' st'. render_row vox c x ray pidx px st = Inr (px', st') \<and>
           length px' = length px \<and> rays st' = rays st \<and>
           rays_per_sec st' = rays_per_sec st \<and> steps_per_sec st' = steps_per_sec st"
  using assms
proof (induction "nat (IMG_W - x)" arbitrary: x ray pidx px st)
  case 0
  then have "\<not> x < IMG_W" by simp
  then show ?case by (simp add: render_row_end)
next
  case (Suc n)
  then have lt: "x < IMG_W" by simp
  then have b: "pidx < IMG_W * IMG_H" using Suc.prems by simp
  obtain tr where tr: "trace_ray_amanatides_woo vox (cam c) (Vector3Normalize ray) = Inr tr"
    using trace_total by blast
  have n: "n = nat (IMG_W - (x + 1))" using Suc.hyps(2) by simp
  have p: "0 \<le> pidx + 1" "pidx + 1 + (IMG_W - (x + 1)) \<le> IMG_W * IMG_H"
    using Suc.prems by simp_all
  show ?case
    using Suc.hyps(1) [OF n p, of "Vector3Add ray (ray_step_x c)"
        "px[nat pidx := pixel_color tr]" "fold_stats tr st"]
      render_row_step [OF lt Suc.prems(1) b tr, of px st]
    by (simp add: fold_stats_keeps)
qed

lemma render_rows_end: "\<not> y < IMG_H \<Longrightarrow> render_rows vox c y px st = Inr (px, st)"
  by (simp add: render_rows.simps)

lemma render_rows_step:
  assumes "y < IMG_H"
    and "render_row vox c 0
           (Vector3Add (Vector3Add (forward c)
              (Vector3Scale (up c) (v_start c + real_of_int y * v_step c)))
              (Vector3Scale (right c) (u_start c)))
           (y * IMG_W) px st = Inr (px', st')"
  shows "render_rows vox c y px st = render_rows vox c (y + 1) px' st'"
  using assms by (subst render_rows.simps) (simp add: Let_def)

lemma row_bounds:
  assumes "0 \<le> y" "y < IMG_H"
  shows "0 \<le> y * IMG_W" "y * IMG_W + (IMG_W - 0) \<le> IMG_W * IMG_H"
  using assms by (simp_all add: IMG_W_def IMG_H_def)

lemma render_rows_total:
  assumes "0 \<le> y"
  shows "\<exists>px' st'. render_rows vox c y px st = Inr (px', st') \<and>
           length px' = length px \<and> rays st' = rays st \<and>
           rays_per_sec st' = rays_per_sec st \<and> steps_per_sec st' = steps_per_sec st"
  using assms
proof (induction "nat (IMG_H - y)" arbitrary: y px st)
  case 0
  then have "\<not> y < IMG_H" by simp
  then show ?case by (simp add: render_rows_end)
next
  case (Suc n)
  then have lt: "y < IMG_H" by simp
  let ?ray = "Vector3Add (Vector3Add (forward c)
              (Vector3Scale (up c) (v_start c + real_of_int y * v_step c)))
              (Vector3Scale (right c) (u_start c))"
  obtain px1 st1 where r: "render_row vox c 0 ?ray (y * IMG_W) px st = Inr (px1, st1)"
    "length px1 = length px" "rays st1 = rays st" "rays_per_sec st1 = rays_per_sec st"
    "steps_per_sec st1 = steps_per_sec st"
    using render_row_total [OF row_bounds [OF Suc.prems lt], of vox c ?ray px st] by blast
  have n: "n = nat (IMG_H - (y + 1))" using Suc.hyps(2) by simp
  have p: "0 \<le> y + 1" using Suc.prems by simp
  show ?case
    using Suc.hyps(1) [OF n p, of px1 st1] render_rows_step [OF lt r(1)] r(2-5)
    by simp
qed

lemma finish_stats_eq:
  assumes "rays st > 0"
  shows "finish_stats dt st =
     Inr (if dt > eps_f32
          then st\<lparr>avg_steps_per_ray := real_of_int (total_steps st) / real_of_int (rays st),
                  hit_ratio := real_of_int (hits st) / real_of_int (rays st),
                  rays_per_sec := real_of_int (rays st) / dt,
                  steps_per_sec := real_of_int (total_steps st) / dt\<rparr>
          else st\<lparr>avg_steps_per_ray := real_of_int (total_steps st) / real_of_int (rays st),
                  hit_ratio := real_of_int (hits st) / real_of_int (rays st)\<rparr>)"
proof -
  have "dt > eps_f32 \<Longrightarrow> dt \<noteq> 0" using eps_f32_pos by auto
  then show ?thesis
    using assms by (auto simp add: finish_stats_def fdiv_def)
qed

lemma render_voxel_image_stats:
  "\<exists>s' st. render_voxel_image dt s = Inr (s', st) \<and> rays st = IMG_W * IMG_H \<and>
     rays_per_sec st = (if dt > eps_f32 then real_of_int (rays st) / dt else 0) \<and>
     steps_per_sec st = (if dt > eps_f32 then real_of_int (total_steps st) / dt else 0)"
proof -
  let ?st0 = "zero_stats\<lparr>rays := IMG_W * IMG_H\<rparr>"
  obtain px st where r: "render_rows (voxels s) (camera_setup s) 0 (pixels s) ?st0 = Inr (px, st)"
    "rays st = rays ?st0" "rays_per_sec st = rays_per_sec ?st0"
    "steps_per_sec st = steps_per_sec ?st0"
    using render_rows_total [of 0 "voxels s" "camera_setup s" "pixels s" ?st0] by auto
  have z: "rays st = IMG_W * IMG_H" "rays_per_sec st = 0" "steps_per_sec st = 0"
    using r(2-4) by (simp_all add: zero_stats_def)
  have pos: "rays st > 0" using z(1) by (simp add: IMG_W_def IMG_H_def)
  show ?thesis
    using r(1) finish_stats_eq [OF pos, of dt] z
    by (simp add: render_voxel_image_def)
qed

text \<open>
  Claim C7. \<open>render_voxel_image\<close> returns for every \<open>dt\<close> and every state, without a
  division by zero. When \<open>dt\<close> is not greater than \<open>1e-6\<close> (zero included) the
  statistics it returns have \<open>rays_per_sec = 0\<close> and \<open>steps_per_sec = 0\<close>; when \<open>dt\<close> is
  greater they are \<open>rays / dt\<close> and \<open>total_steps / dt\<close>, with \<open>rays = IMG_W * IMG_H\<close>.
\<close>

theorem render_throughput:
  "\<exists>s' st. render_voxel_image dt s = Inr (s', st) \<and>
     (\<not> dt > eps_f32 \<longrightarrow> rays_per_sec st = 0 \<and> steps_per_sec st = 0) \<and>
     (dt > eps_f32 \<longrightarrow>
        rays_per_sec st = real_of_int (rays st) / dt \<and>
        steps_per_sec st = real_of_int (total_steps st) / dt \<and>
        rays st = IMG_W * IMG_H)"
  using render_voxel_image_stats [of dt s] by auto

text \<open>The instances: \<open>dt = 0\<close>, and \<open>dt = 1/60\<close> with 57600 rays.\<close>

theorem render_throughput_witness:
  "\<not> (0 :: real) > eps_f32 \<and>
   (\<exists>s' st. render_voxel_image 0 blank_state = Inr (s', st) \<and>
      rays_per_sec st = 0 \<and> steps_per_sec st = 0) \<and>
   (1 / 60 :: real) > eps_f32 \<and>
   (\<exists>s' st. render_voxel_image (1 / 60) blank_state = Inr (s', st) \<and>
      rays_per_sec st = real_of_int (rays st) / (1 / 60) \<and>
      steps_per_sec st = real_of_int (total_steps st) / (1 / 60) \<and>
      rays_per_sec st = 3456000)"
proof -
  have a: "\<not> (0 :: real) > eps_f32" "(1 / 60 :: real) > eps_f32"
    by (simp_all add: eps_f32_def)
  have 1: "\<exists>s' st. render_voxel_image 0 blank_state = Inr (s', st) \<and>
      rays_per_sec st = 0 \<and> steps_per_sec st = 0"
    using render_throughput [of 0 blank_state] a(1) by blast
  obtain s' st where r: "render_voxel_image (1 / 60) blank_state = Inr (s', st)"
      "rays_per_sec st = real_of_int (rays st) / (1 / 60)"
      "steps_per_sec st = real_of_int (total_steps st) / (1 / 60)"
      "rays st = IMG_W * IMG_H"
    using render_throughput [of "1 / 60" blank_state] a(2) by blast
  have "rays_per_sec st = 3456000"
    using r(2,4) by (simp add: IMG_W_def IMG_H_def)
  with r have 2: "\<exists>s' st. render_voxel_image (1 / 60) blank_state = Inr (s', st) \<and>
      rays_per_sec st = real_of_int (rays st) / (1 / 60) \<and>
      steps_per_sec st = real_of_int (total_steps st) / (1 / 60) \<and>
      rays_per_sec st = 3456000" by blast
  from a 1 2 show ?thesis by blast
qed

subsection \<open>What the rendered frame depends on\<close>

lemma take_update_agree:
  assumes "length xs = length ys" "take n xs = take n ys"
  shows "take (Suc n) (xs[n := c]) = take (Suc n) (ys[n := c])"
proof (rule nth_equalityI)
  show "length (take (Suc n) (xs[n := c])) = length (take (Suc n) (ys[n := c]))"
    using assms(1) by simp
next
  fix i assume "i < length (take (Suc n) (xs[n := c]))"
  then have i: "i < Suc n" "i < length xs" by simp_all
  show "take (Suc n) (xs[n := c]) ! i = take (Suc n) (ys[n := c]) ! i"
  proof (cases "i = n")
    case True
    then show ?thesis using i assms(1) by simp
  next
    case False
    then have lt: "i < n" using i(1) by simp
    have "xs ! i = take n xs ! i" using lt by simp
    also have "\<dots> = take n ys ! i" using assms(2) by simp
    also have "\<dots> = ys ! i" using lt by simp
    finally show ?thesis using i False by simp
  qed
qed

lemma render_row_agree:
  assumes "length px1 = length px2" "take (nat pidx) px1 = take (nat pidx) px2"
    "0 \<le> pidx" "pidx + (IMG_W - x) \<le> IMG_W * IMG_H" "x \<le> IMG_W"
  shows "\<exists>q1 q2 st'. render_row vox c x ray pidx px1 st = Inr (q1, st') \<and>
           render_row vox c x ray pidx px2 st = Inr (q2, st') \<and>
           length q1 = length q2 \<and>
           take (nat (pidx + (IMG_W - x))) q1 = take (nat (pidx + (IMG_W - x))) q2"
  using assms
proof (induction "nat (IMG_W - x)" arbitrary: x ray pidx px1 px2 st)
  case 0
  then have e: "\<not> x < IMG_W" "x = IMG_W" by simp_all
  show ?case using "0.prems"(1,2) e(2) by (simp add: render_row_end)
next
  case (Suc n)
  then have lt: "x < IMG_W" by simp
  then have b: "pidx < IMG_W * IMG_H" using Suc.prems by simp
  obtain tr where tr: "trace_ray_amanatides_woo vox (cam c) (Vector3Normalize ray) = Inr tr"
    using trace_total by blast
  have n: "n = nat (IMG_W - (x + 1))" using Suc.hyps(2) by simp
  have p: "0 \<le> pidx + 1" "pidx + 1 + (IMG_W - (x + 1)) \<le> IMG_W * IMG_H" "x + 1 \<le> IMG_W"
    using Suc.prems lt by simp_all
  have l: "length (px1[nat pidx := pixel_color tr]) = length (px2[nat pidx := pixel_color tr])"
    using Suc.prems(1) by simp
  have sn: "nat (pidx + 1) = Suc (nat pidx)" using Suc.prems(3) by simp
  have t: "take (nat (pidx + 1)) (px1[nat pidx := pixel_color tr])
           = take (nat (pidx + 1)) (px2[nat pidx := pixel_color tr])"
    unfolding sn using Suc.prems(1,2) by (rule take_update_agree)
  have w: "pidx + 1 + (IMG_W - (x + 1)) = pidx + (IMG_W - x)" by simp
  show ?case
    using Suc.hyps(1) [OF n l t p, of "Vector3Add ray (ray_step_x c)" "fold_stats tr st"]
      render_row_step [OF lt Suc.prems(3) b tr, of px1 st]
      render_row_step [OF lt Suc.prems(3) b tr, of px2 st]
    unfolding w by simp
qed

lemma render_rows_agree:
  assumes "length px1 = length px2" "take (nat (y * IMG_W)) px1 = take (nat (y * IMG_W)) px2"
    "0 \<le> y" "y \<le> IMG_H"
  shows "\<exists>q1 q2 st'. render_rows vox c y px1 st = Inr (q1, st') \<and>
           render_rows vox c y px2 st = Inr (q2, st') \<and>
           length q1 = length q2 \<and>
           take (nat (IMG_H * IMG_W)) q1 = take (nat (IMG_H * IMG_W)) q2"
  using assms
proof (induction "nat (IMG_H - y)" arbitrary: y px1 px2 st)
  case 0
  then have e: "\<not> y < IMG_H" "y = IMG_H" by simp_all
  show ?case using "0.prems"(1,2) e(2) by (simp add: render_rows_end)
next
  case (Suc n)
  then have lt: "y < IMG_H" by simp
  let ?ray = "Vector3Add (Vector3Add (forward c)
              (Vector3Scale (up c) (v_start c + real_of_int y * v_step c)))
              (Vector3Scale (right c) (u_start c))"
  note rb = row_bounds [OF Suc.prems(3) lt]
  have x0: "(0 :: int) \<le> IMG_W" by (simp add: IMG_W_def)
  obtain q1 q2 st1 where r:
    "render_row vox c 0 ?ray (y * IMG_W) px1 st = Inr (q1, st1)"
    "render_row vox c 0 ?ray (y * IMG_W) px2 st = Inr (q2, st1)"
    "length q1 = length q2"
    "take (nat (y * IMG_W + (IMG_W - 0))) q1 = take (nat (y * IMG_W + (IMG_W - 0))) q2"
    using render_row_agree [OF Suc.prems(1,2) rb x0, of vox c ?ray st] by blast
  have w: "y * IMG_W + (IMG_W - 0) = (y + 1) * IMG_W" by (simp add: algebra_simps)
  have t: "take (nat ((y + 1) * IMG_W)) q1 = take (nat ((y + 1) * IMG_W)) q2"
    using r(4) unfolding w .
  have n: "n = nat (IMG_H - (y + 1))" using Suc.hyps(2) by simp
  have p: "0 \<le> y + 1" "y + 1 \<le> IMG_H" using Suc.prems lt by simp_all
  show ?case
    using Suc.hyps(1) [OF n r(3) t p, of st1]
      render_rows_step [OF lt r(1)] render_rows_step [OF lt r(2)]
    by simp
qed

lemma camera_setup_cong:
  "time_s s1 = time_s s2 \<Longrightarrow> freeze_camera s1 = freeze_camera s2 \<Longrightarrow>
   camera_setup s1 = camera_setup s2"
  by (simp add: camera_setup_def)

lemma render_pixels_agree:
  assumes "time_s s1 = time_s s2" "freeze_camera s1 = freeze_camera s2"
    "voxels s1 = voxels s2"
    "length (pixels s1) = nat (IMG_W * IMG_H)" "length (pixels s2) = nat (IMG_W * IMG_H)"
  shows "\<exists>q st. render_rows (voxels s1) (camera_setup s1) 0 (pixels s1) st0 = Inr (q, st) \<and>
           render_rows (voxels s2) (camera_setup s2) 0 (pixels s2) st0 = Inr (q, st) \<and>
           rays st = rays st0"
proof -
  have c: "camera_setup s1 = camera_setup s2"
    using assms(1,2) by (rule camera_setup_cong)
  have l: "length (pixels s1) = length (pixels s2)" using assms(4,5) by simp
  have t: "take (nat (0 * IMG_W)) (pixels s1) = take (nat (0 * IMG_W)) (pixels s2)" by simp
  have b: "(0 :: int) \<le> 0" "(0 :: int) \<le> IMG_H" by (simp_all add: IMG_H_def)
  obtain q1 q2 st where r:
    "render_rows (voxels s1) (camera_setup s1) 0 (pixels s1) st0 = Inr (q1, st)"
    "render_rows (voxels s1) (camera_setup s1) 0 (pixels s2) st0 = Inr (q2, st)"
    "length q1 = length q2"
    "take (nat (IMG_H * IMG_W)) q1 = take (nat (IMG_H * IMG_W)) q2"
    using render_rows_agree [OF l t b, of "voxels s1" "camera_setup s1" st0] by blast
  have k: "length q1 = length (pixels s1)" "rays st = rays st0"
    using render_rows_total [OF b(1), of "voxels s1" "camera_setup s1" "pixels s1" st0] r(1)
    by auto
  have "length q1 = nat (IMG_H * IMG_W)"
    using k(1) assms(4) by (simp add: mult.commute)
  then have "q1 = q2" using r(3,4) by simp
  then show ?thesis using r(1,2) c assms(3) k(2) by simp
qed

text \<open>
  Claim C8. Two invocations of \<open>render_voxel_image\<close> on equal inputs (the same
  argument \<open>dt\<close>, and states with the same scene time \<open>time_s\<close>, the same freeze flag and
  the same voxel grid, the pixel buffers having their declared size) both return, with
  equal pixel buffers and equal statistics: nothing else of the state, the previous
  content of the pixel buffer included, reaches the output.
\<close>

theorem render_noninterference:
  "time_s s1 = time_s s2 \<and> freeze_camera s1 = freeze_camera s2 \<and> voxels s1 = voxels s2 \<and>
   length (pixels s1) = nat (IMG_W * IMG_H) \<and> length (pixels s2) = nat (IMG_W * IMG_H) \<longrightarrow>
     (\<exists>a b st. render_voxel_image dt s1 = Inr (a, st) \<and>
                render_voxel_image dt s2 = Inr (b, st) \<and> pixels a = pixels b)"
proof (rule impI)
  assume a: "time_s s1 = time_s s2 \<and> freeze_camera s1 = freeze_camera s2 \<and>
    voxels s1 = voxels s2 \<and>
    length (pixels s1) = nat (IMG_W * IMG_H) \<and> length (pixels s2) = nat (IMG_W * IMG_H)"
  let ?st0 = "zero_stats\<lparr>rays := IMG_W * IMG_H\<rparr>"
  obtain q st where r:
    "render_rows (voxels s1) (camera_setup s1) 0 (pixels s1) ?st0 = Inr (q, st)"
    "render_rows (voxels s2) (camera_setup s2) 0 (pixels s2) ?st0 = Inr (q, st)"
    "rays st = rays ?st0"
    using render_pixels_agree [of s1 s2 ?st0] a by blast
  have "rays st > 0" using r(3) by (simp add: IMG_W_def IMG_H_def)
  then obtain st' where f: "finish_stats dt st = Inr st'"
    using finish_stats_eq [of st dt] by blast
  have "render_voxel_image dt s1 = Inr (s1\<lparr>pixels := q\<rparr>, st')"
    "render_voxel_image dt s2 = Inr (s2\<lparr>pixels := q\<rparr>, st')"
    using r(1,2) f by (simp_all add: render_voxel_image_def)
  then show "\<exists>a b st. render_voxel_image dt s1 = Inr (a, st) \<and>
                render_voxel_image dt s2 = Inr (b, st) \<and> pixels a = pixels b"
    by simp
qed

text \<open>
  The instance: \<open>blank_state\<close> and \<open>stale_state\<close> have different
  pixel buffers before the frame and the same one after it.
\<close>

theorem render_noninterference_witness:
  "time_s blank_state = time_s stale_state \<and>
   freeze_camera blank_state = freeze_camera stale_state \<and>
   voxels blank_state = voxels stale_state \<and>
   length (pixels blank_state) = nat (IMG_W * IMG_H) \<and>
   length (pixels stale_state) = nat (IMG_W * IMG_H) \<and>
   pixels blank_state \<noteq> pixels stale_state \<and>
   (\<exists>a b st. render_voxel_image (1 / 60) blank_state = Inr (a, st) \<and>
              render_voxel_image (1 / 60) stale_state = Inr (b, st) \<and> pixels a = pixels b)"
proof -
  have h: "time_s blank_state = time_s stale_state \<and>
     freeze_camera blank_state = freeze_camera stale_state \<and>
     voxels blank_state = voxels stale_state \<and>
     length (pixels blank_state) = nat (IMG_W * IMG_H) \<and>
     length (pixels stale_state) = nat (IMG_W * IMG_H)"
    by (simp add: stale_state_def blank_state_def IMG_W_def IMG_H_def)
  have d: "pixels blank_state \<noteq> pixels stale_state"
    by (simp add: stale_state_def blank_state_def)
  from render_noninterference [of blank_state stale_state "1 / 60"] h
  have "\<exists>a b st. render_voxel_image (1 / 60) blank_state = Inr (a, st) \<and>
              render_voxel_image (1 / 60) stale_state = Inr (b, st) \<and> pixels a = pixels b"
    by blast
  with h d show ?thesis by blast
qed

subsection \<open>The rays of one row, in exact arithmetic\<close>

text \<open>
  The inner loop adds \<open>ray_step_x\<close> to the ray once per column. In exact arithmetic the ray
  after \<open>k\<close> additions is the closed form at column \<open>k\<close>, by distributivity.
\<close>

lemma ray_step_x_camera_setup:
  "ray_step_x (camera_setup s) = Vector3Scale (right (camera_setup s)) (u_step (camera_setup s))"
  by (simp add: camera_setup_def Let_def)

lemma incremental_ray_exact:
  assumes "c = camera_setup s"
  shows "((\<lambda>r. Vector3Add r (ray_step_x c)) ^^ k)
           (Vector3Add (Vector3Add (forward c) (Vector3Scale (up c) v))
              (Vector3Scale (right c) (u_start c)))
         = Vector3Add (Vector3Add (forward c) (Vector3Scale (up c) v))
             (Vector3Scale (right c) (u_start c + real k * u_step c))"
proof (induction k)
  case 0
  show ?case by simp
next
  case (Suc k)
  let ?base = "Vector3Add (forward c) (Vector3Scale (up c) v)"
  have r: "ray_step_x c = Vector3Scale (right c) (u_step c)"
    using assms ray_step_x_camera_setup by simp
  have "((\<lambda>r. Vector3Add r (ray_step_x c)) ^^ Suc k)
          (Vector3Add ?base (Vector3Scale (right c) (u_start c)))
        = Vector3Add (Vector3Add ?base (Vector3Scale (right c) (u_start c + real k * u_step c)))
            (ray_step_x c)"
    by (simp only: funpow.simps o_apply Suc.IH)
  also have "\<dots> = Vector3Add ?base
                     (Vector3Scale (right c) (u_start c + real (Suc k) * u_step c))"
    by (simp add: r Vector3Add_def Vector3Scale_def algebra_simps)
  finally show ?case .
qed

subsection \<open>Rounding to single precision\<close>

lemma pow2_powr: "pow2 e = 2 powr (real_of_int e)"
  by (simp add: pow2_def powr_int)

lemma pow2_pos: "0 < pow2 e"
  by (simp add: pow2_powr)

lemma pow2_add: "pow2 (a + b) = pow2 a * pow2 b"
  by (simp add: pow2_powr powr_add)

lemma round_even_error: "\<bar>real_of_int (round_even q) - q\<bar> \<le> 1 / 2"
proof -
  have "real_of_int \<lfloor>q\<rfloor> \<le> q" "q < real_of_int \<lfloor>q\<rfloor> + 1" by linarith+
  then show ?thesis
    by (auto simp add: round_even_def Let_def)
qed

lemma round_f32_normal:
  assumes "pow2 k \<le> \<bar>r\<bar>" "\<bar>r\<bar> < pow2 (k + 1)"
  shows "round_f32 r = real_of_int (round_even (r / pow2 (k - 23))) * pow2 (k - 23)"
proof -
  have nz: "r \<noteq> 0" using assms(1) pow2_pos [of k] by auto
  then have "0 < \<bar>r\<bar>" by simp
  moreover have "2 powr (real_of_int k) \<le> \<bar>r\<bar> \<and> \<bar>r\<bar> < 2 powr (real_of_int (k + 1))"
    using assms by (simp add: pow2_powr)
  ultimately have "\<lfloor>log 2 \<bar>r\<bar>\<rfloor> = k"
    using floor_log_eq_powr_iff [of "\<bar>r\<bar>" 2 k] by simp
  then show ?thesis using nz by (simp add: round_f32_def Let_def)
qed

lemma round_f32_zero: "round_f32 0 = 0"
  by (simp add: round_f32_def)

lemma round_f32_error: "\<bar>round_f32 r - r\<bar> \<le> \<bar>r\<bar> / 2 ^ 24"
proof (cases "r = 0")
  case True
  then show ?thesis by (simp add: round_f32_zero)
next
  case False
  define k where "k = \<lfloor>log 2 \<bar>r\<bar>\<rfloor>"
  have pos: "0 < \<bar>r\<bar>" using False by simp
  have b: "2 powr (real_of_int k) \<le> \<bar>r\<bar> \<and> \<bar>r\<bar> < 2 powr (real_of_int (k + 1))"
    using floor_log_eq_powr_iff [of "\<bar>r\<bar>" 2 k] pos k_def by simp
  then have lo: "pow2 k \<le> \<bar>r\<bar>" and hi: "\<bar>r\<bar> < pow2 (k + 1)"
    by (simp_all add: pow2_powr)
  let ?p = "pow2 (k - 23)"
  have p: "0 < ?p" by (rule pow2_pos)
  have pk: "?p * 2 ^ 23 = pow2 k"
    using pow2_add [of "k - 23" 23] by (simp add: pow2_def)
  have "round_f32 r - r = (real_of_int (round_even (r / ?p)) - r / ?p) * ?p"
    using round_f32_normal [OF lo hi] p by (simp add: algebra_simps)
  then have "\<bar>round_f32 r - r\<bar> = \<bar>real_of_int (round_even (r / ?p)) - r / ?p\<bar> * ?p"
    using p by (simp add: abs_mult)
  also have "\<dots> \<le> (1 / 2) * ?p"
    using round_even_error [of "r / ?p"] p by (intro mult_right_mono) simp_all
  also have "\<dots> = pow2 k / 2 ^ 24" using pk by simp
  also have "\<dots> \<le> \<bar>r\<bar> / 2 ^ 24" using lo by (simp add: divide_right_mono)
  finally show ?thesis .
qed

lemma round_f32_approx:
  fixes U :: real
  assumes U: "U = 1 + 1 / 2 ^ 24"
    and a: "\<bar>x - X\<bar> \<le> (U ^ n - 1) * W" and b: "\<bar>X\<bar> \<le> W"
  shows "\<bar>round_f32 x - X\<bar> \<le> (U ^ Suc n - 1) * W"
proof -
  have "\<bar>x\<bar> \<le> \<bar>X\<bar> + \<bar>x - X\<bar>" by simp
  also have "\<dots> \<le> W + (U ^ n - 1) * W" using a b by simp
  also have "\<dots> = U ^ n * W" by (simp add: algebra_simps)
  finally have x: "\<bar>x\<bar> \<le> U ^ n * W" .
  have "\<bar>round_f32 x - X\<bar> \<le> \<bar>round_f32 x - x\<bar> + \<bar>x - X\<bar>" by simp
  also have "\<dots> \<le> \<bar>x\<bar> / 2 ^ 24 + (U ^ n - 1) * W"
    using round_f32_error [of x] a by simp
  also have "\<dots> \<le> (U ^ n * W) / 2 ^ 24 + (U ^ n - 1) * W"
    using x by (simp add: divide_right_mono)
  also have "\<dots> = (U ^ Suc n - 1) * W"
    by (simp add: U algebra_simps)
  finally show ?thesis .
qed

lemma U_power_mono:
  fixes U :: real
  assumes "U = 1 + 1 / 2 ^ 24" "i \<le> n" "0 \<le> W"
  shows "(U ^ i - 1) * W \<le> (U ^ n - 1) * W"
proof -
  have "1 \<le> U" using assms(1) by simp
  then have "U ^ i \<le> U ^ n" using assms(2) by (rule power_increasing [rotated])
  then show ?thesis using assms(3) by (simp add: mult_right_mono)
qed

lemma fadd_f32_approx:
  fixes U :: real
  assumes U: "U = 1 + 1 / 2 ^ 24"
    and a: "\<bar>a - A\<bar> \<le> (U ^ i - 1) * Wa" "\<bar>A\<bar> \<le> Wa" "i \<le> n"
    and b: "\<bar>b - B\<bar> \<le> (U ^ j - 1) * Wb" "\<bar>B\<bar> \<le> Wb" "j \<le> n"
  shows "\<bar>fadd_f32 a b - (A + B)\<bar> \<le> (U ^ Suc n - 1) * (Wa + Wb)"
proof -
  have w: "0 \<le> Wa" "0 \<le> Wb" using a(2) b(2) by linarith+
  have "\<bar>(a + b) - (A + B)\<bar> \<le> \<bar>a - A\<bar> + \<bar>b - B\<bar>" by simp
  also have "\<dots> \<le> (U ^ n - 1) * Wa + (U ^ n - 1) * Wb"
    using a(1) b(1) U_power_mono [OF U a(3) w(1)] U_power_mono [OF U b(3) w(2)] by linarith
  also have "\<dots> = (U ^ n - 1) * (Wa + Wb)" by (simp add: algebra_simps)
  finally have d: "\<bar>(a + b) - (A + B)\<bar> \<le> (U ^ n - 1) * (Wa + Wb)" .
  have m: "\<bar>A + B\<bar> \<le> Wa + Wb" using a(2) b(2) by linarith
  show ?thesis
    unfolding fadd_f32_def using round_f32_approx [OF U d m] .
qed

lemma fmul_f32_approx:
  fixes U :: real
  assumes U: "U = 1 + 1 / 2 ^ 24"
    and b: "\<bar>b - B\<bar> \<le> (U ^ j - 1) * Wb" "\<bar>B\<bar> \<le> Wb"
  shows "\<bar>fmul_f32 R b - R * B\<bar> \<le> (U ^ Suc j - 1) * (\<bar>R\<bar> * Wb)"
proof -
  have "\<bar>R * b - R * B\<bar> = \<bar>R\<bar> * \<bar>b - B\<bar>"
    by (simp add: abs_mult flip: right_diff_distrib)
  also have "\<dots> \<le> \<bar>R\<bar> * ((U ^ j - 1) * Wb)"
    using b(1) by (simp add: mult_left_mono)
  finally have d: "\<bar>R * b - R * B\<bar> \<le> (U ^ j - 1) * (\<bar>R\<bar> * Wb)"
    by (simp add: algebra_simps)
  have m: "\<bar>R * B\<bar> \<le> \<bar>R\<bar> * Wb"
    using b(2) by (simp add: abs_mult mult_left_mono)
  show ?thesis
    unfolding fmul_f32_def using round_f32_approx [OF U d m] .
qed

lemma exact_approx:
  fixes U :: real
  shows "\<bar>a - a\<bar> \<le> (U ^ 0 - 1) * \<bar>a\<bar>" "\<bar>a\<bar> \<le> \<bar>a\<bar>"
  by simp_all

text \<open>A sequence that follows the loop: one component of the ray, column after column.\<close>

lemma incremental_component_error:
  fixes U :: real and f :: "nat \<Rightarrow> real"
  assumes U: "U = 1 + 1 / 2 ^ 24"
    and f0: "f 0 = fadd_f32 B (fmul_f32 R us)"
    and fS: "\<And>k. f (Suc k) = fadd_f32 (f k) (fmul_f32 R ut)"
  shows "\<bar>f k - (B + R * (us + real k * ut))\<bar>
         \<le> (U ^ (k + 2) - 1) * (\<bar>B\<bar> + \<bar>R\<bar> * (\<bar>us\<bar> + real k * \<bar>ut\<bar>))"
proof (induction k)
  case 0
  have m: "\<bar>fmul_f32 R us - R * us\<bar> \<le> (U ^ Suc 0 - 1) * (\<bar>R\<bar> * \<bar>us\<bar>)"
    using fmul_f32_approx [OF U exact_approx] .
  have mb: "\<bar>R * us\<bar> \<le> \<bar>R\<bar> * \<bar>us\<bar>" by (simp add: abs_mult)
  have "\<bar>fadd_f32 B (fmul_f32 R us) - (B + R * us)\<bar> \<le> (U ^ Suc (Suc 0) - 1) * (\<bar>B\<bar> + \<bar>R\<bar> * \<bar>us\<bar>)"
    using fadd_f32_approx [OF U exact_approx _ m mb, of "Suc 0" B] by simp
  then show ?case by (simp add: f0)
next
  case (Suc k)
  let ?E = "B + R * (us + real k * ut)"
  let ?M = "\<bar>B\<bar> + \<bar>R\<bar> * (\<bar>us\<bar> + real k * \<bar>ut\<bar>)"
  have e: "\<bar>?E\<bar> \<le> ?M"
  proof -
    have "\<bar>?E\<bar> \<le> \<bar>B\<bar> + \<bar>R * (us + real k * ut)\<bar>" by simp
    also have "\<dots> = \<bar>B\<bar> + \<bar>R\<bar> * \<bar>us + real k * ut\<bar>" by (simp add: abs_mult)
    also have "\<dots> \<le> \<bar>B\<bar> + \<bar>R\<bar> * (\<bar>us\<bar> + real k * \<bar>ut\<bar>)"
    proof -
      have "\<bar>us + real k * ut\<bar> \<le> \<bar>us\<bar> + \<bar>real k * ut\<bar>" by simp
      also have "\<dots> = \<bar>us\<bar> + real k * \<bar>ut\<bar>" by (simp add: abs_mult)
      finally show ?thesis by (simp add: mult_left_mono)
    qed
    finally show ?thesis .
  qed
  have s: "\<bar>fmul_f32 R ut - R * ut\<bar> \<le> (U ^ Suc 0 - 1) * (\<bar>R\<bar> * \<bar>ut\<bar>)"
    using fmul_f32_approx [OF U exact_approx] .
  have sb: "\<bar>R * ut\<bar> \<le> \<bar>R\<bar> * \<bar>ut\<bar>" by (simp add: abs_mult)
  have "\<bar>fadd_f32 (f k) (fmul_f32 R ut) - (?E + R * ut)\<bar>
        \<le> (U ^ Suc (k + 2) - 1) * (?M + \<bar>R\<bar> * \<bar>ut\<bar>)"
    using fadd_f32_approx [OF U Suc.IH e _ s sb, of "k + 2"] by simp
  moreover have "?E + R * ut = B + R * (us + real (Suc k) * ut)"
    by (simp add: algebra_simps)
  moreover have "?M + \<bar>R\<bar> * \<bar>ut\<bar> = \<bar>B\<bar> + \<bar>R\<bar> * (\<bar>us\<bar> + real (Suc k) * \<bar>ut\<bar>)"
    by (simp add: algebra_simps)
  ultimately show ?case by (simp add: fS)
qed

lemma closed_form_component_error:
  fixes U :: real
  assumes U: "U = 1 + 1 / 2 ^ 24"
  shows "\<bar>fadd_f32 B (fmul_f32 R (fadd_f32 us (fmul_f32 (real k) ut)))
           - (B + R * (us + real k * ut))\<bar>
         \<le> (U ^ 4 - 1) * (\<bar>B\<bar> + \<bar>R\<bar> * (\<bar>us\<bar> + real k * \<bar>ut\<bar>))"
proof -
  have t1: "\<bar>fmul_f32 (real k) ut - real k * ut\<bar> \<le> (U ^ Suc 0 - 1) * (\<bar>real k\<bar> * \<bar>ut\<bar>)"
    using fmul_f32_approx [OF U exact_approx] .
  have t1b: "\<bar>real k * ut\<bar> \<le> \<bar>real k\<bar> * \<bar>ut\<bar>" by (simp add: abs_mult)
  have t2: "\<bar>fadd_f32 us (fmul_f32 (real k) ut) - (us + real k * ut)\<bar>
            \<le> (U ^ Suc (Suc 0) - 1) * (\<bar>us\<bar> + \<bar>real k\<bar> * \<bar>ut\<bar>)"
    using fadd_f32_approx [OF U exact_approx _ t1 t1b, of "Suc 0" us] by simp
  have t2b: "\<bar>us + real k * ut\<bar> \<le> \<bar>us\<bar> + \<bar>real k\<bar> * \<bar>ut\<bar>"
    using t1b by linarith
  have t3: "\<bar>fmul_f32 R (fadd_f32 us (fmul_f32 (real k) ut)) - R * (us + real k * ut)\<bar>
            \<le> (U ^ Suc (Suc (Suc 0)) - 1) * (\<bar>R\<bar> * (\<bar>us\<bar> + \<bar>real k\<bar> * \<bar>ut\<bar>))"
    using fmul_f32_approx [OF U t2 t2b] .
  have t3b: "\<bar>R * (us + real k * ut)\<bar> \<le> \<bar>R\<bar> * (\<bar>us\<bar> + \<bar>real k\<bar> * \<bar>ut\<bar>)"
    using t2b by (simp add: abs_mult mult_left_mono)
  have "\<bar>fadd_f32 B (fmul_f32 R (fadd_f32 us (fmul_f32 (real k) ut)))
           - (B + R * (us + real k * ut))\<bar>
        \<le> (U ^ Suc (Suc (Suc (Suc 0))) - 1) * (\<bar>B\<bar> + \<bar>R\<bar> * (\<bar>us\<bar> + \<bar>real k\<bar> * \<bar>ut\<bar>))"
    using fadd_f32_approx [OF U exact_approx _ t3 t3b, of "Suc (Suc (Suc 0))" B] by simp
  then show ?thesis by (simp add: numeral_eq_Suc)
qed

lemma one_plus_power_le_exp:
  fixes x :: real
  assumes "0 \<le> x"
  shows "(1 + x) ^ n \<le> exp (real n * x)"
proof -
  have "1 + x \<le> exp x" by (rule exp_ge_add_one_self)
  then have "(1 + x) ^ n \<le> exp x ^ n" using assms by (intro power_mono) simp_all
  then show ?thesis by (simp add: exp_of_nat_mult)
qed

lemma drift_factor_image:
  assumes "k < 320"
  shows "(1 + 1 / 2 ^ 24) ^ (k + 2) + (1 + 1 / 2 ^ 24) ^ 4 - 2 \<le> (1 / 2 ^ 15 :: real)"
proof -
  have "(1 + 1 / 2 ^ 24 :: real) ^ (k + 2) \<le> (1 + 1 / 2 ^ 24) ^ 321"
    using assms by (intro power_increasing) simp_all
  also have "\<dots> \<le> exp (real 321 * (1 / 2 ^ 24))"
    by (rule one_plus_power_le_exp) simp
  also have "\<dots> \<le> 1 + (real 321 * (1 / 2 ^ 24)) + (real 321 * (1 / 2 ^ 24))\<^sup>2"
    by (rule exp_bound) simp_all
  finally have a: "(1 + 1 / 2 ^ 24 :: real) ^ (k + 2)
      \<le> 1 + (real 321 * (1 / 2 ^ 24)) + (real 321 * (1 / 2 ^ 24))\<^sup>2" .
  have "(1 + 1 / 2 ^ 24 :: real) ^ 4 \<le> exp (real 4 * (1 / 2 ^ 24))"
    by (rule one_plus_power_le_exp) simp
  also have "\<dots> \<le> 1 + (real 4 * (1 / 2 ^ 24)) + (real 4 * (1 / 2 ^ 24))\<^sup>2"
    by (rule exp_bound) simp_all
  finally have b: "(1 + 1 / 2 ^ 24 :: real) ^ 4
      \<le> 1 + (real 4 * (1 / 2 ^ 24)) + (real 4 * (1 / 2 ^ 24))\<^sup>2" .
  have c: "(1 + (real 321 * (1 / 2 ^ 24)) + (real 321 * (1 / 2 ^ 24))\<^sup>2)
         + (1 + (real 4 * (1 / 2 ^ 24)) + (real 4 * (1 / 2 ^ 24))\<^sup>2) - 2 \<le> (1 / 2 ^ 15 :: real)"
    by (simp add: power2_eq_square)
  from a b c show ?thesis by linarith
qed

lemma incremental_ray_f32_components:
  "vx (incremental_ray_f32 c y 0) = fadd_f32 (vx (row_base_f32 c y)) (fmul_f32 (vx (right c)) (u_start c))"
  "vy (incremental_ray_f32 c y 0) = fadd_f32 (vy (row_base_f32 c y)) (fmul_f32 (vy (right c)) (u_start c))"
  "vz (incremental_ray_f32 c y 0) = fadd_f32 (vz (row_base_f32 c y)) (fmul_f32 (vz (right c)) (u_start c))"
  "vx (incremental_ray_f32 c y (Suc k)) = fadd_f32 (vx (incremental_ray_f32 c y k)) (vx (ray_step_x c))"
  "vy (incremental_ray_f32 c y (Suc k)) = fadd_f32 (vy (incremental_ray_f32 c y k)) (vy (ray_step_x c))"
  "vz (incremental_ray_f32 c y (Suc k)) = fadd_f32 (vz (incremental_ray_f32 c y k)) (vz (ray_step_x c))"
  by (simp_all add: Vector3Add_f32_def Vector3Scale_f32_def)

lemma spec_closed_form_ray_f32_components:
  "vx (spec_closed_form_ray_f32 c y k) = fadd_f32 (vx (row_base_f32 c y))
     (fmul_f32 (vx (right c)) (fadd_f32 (u_start c) (fmul_f32 (real k) (u_step c))))"
  "vy (spec_closed_form_ray_f32 c y k) = fadd_f32 (vy (row_base_f32 c y))
     (fmul_f32 (vy (right c)) (fadd_f32 (u_start c) (fmul_f32 (real k) (u_step c))))"
  "vz (spec_closed_form_ray_f32 c y k) = fadd_f32 (vz (row_base_f32 c y))
     (fmul_f32 (vz (right c)) (fadd_f32 (u_start c) (fmul_f32 (real k) (u_step c))))"
  by (simp_all add: spec_closed_form_ray_f32_def Vector3Add_f32_def Vector3Scale_f32_def)

lemma component_drift:
  fixes f :: "nat \<Rightarrow> real"
  assumes f0: "f 0 = fadd_f32 B (fmul_f32 R us)"
    and fS: "\<And>k. f (Suc k) = fadd_f32 (f k) (fmul_f32 R ut)"
  shows "\<bar>f k - fadd_f32 B (fmul_f32 R (fadd_f32 us (fmul_f32 (real k) ut)))\<bar>
         \<le> ((1 + 1 / 2 ^ 24) ^ (k + 2) + (1 + 1 / 2 ^ 24) ^ 4 - 2)
             * (\<bar>B\<bar> + \<bar>R\<bar> * (\<bar>us\<bar> + real k * \<bar>ut\<bar>))"
proof -
  define U :: real where "U = 1 + 1 / 2 ^ 24"
  let ?E = "B + R * (us + real k * ut)"
  let ?M = "\<bar>B\<bar> + \<bar>R\<bar> * (\<bar>us\<bar> + real k * \<bar>ut\<bar>)"
  let ?cf = "fadd_f32 B (fmul_f32 R (fadd_f32 us (fmul_f32 (real k) ut)))"
  have a: "\<bar>f k - ?E\<bar> \<le> (U ^ (k + 2) - 1) * ?M"
    using incremental_component_error [OF U_def f0 fS] .
  have b: "\<bar>?cf - ?E\<bar> \<le> (U ^ 4 - 1) * ?M"
    using closed_form_component_error [OF U_def] .
  have "\<bar>f k - ?cf\<bar> \<le> \<bar>f k - ?E\<bar> + \<bar>?cf - ?E\<bar>" by simp
  also have "\<dots> \<le> (U ^ (k + 2) - 1) * ?M + (U ^ 4 - 1) * ?M" using a b by simp
  also have "\<dots> = (U ^ (k + 2) + U ^ 4 - 2) * ?M" by (simp add: algebra_simps)
  finally show ?thesis unfolding U_def .
qed

text \<open>
  Claim C9, as amended. In exact arithmetic the ray of the incremental scheme (the first
  ray of the row followed by \<open>k\<close> additions of \<open>ray_step_x\<close>) equals the closed form at
  column \<open>k\<close>, for every row and column. In the single-precision arithmetic of the code
  the two are not bit-identical: with \<open>ray_step_x\<close> computed as in line 346, each
  component of the incremental ray differs from the same component of the rounded closed
  form by at most the factor \<open>(1 + 2^-24)^(k+2) + (1 + 2^-24)^4 - 2\<close> times
  \<open>|row_base| + |right| * (|u_start| + k * |u_step|)\<close>, and for the 320 columns of the
  image that factor is below \<open>2^-15\<close>.
\<close>

theorem incremental_ray_tolerance:
  "(c = camera_setup s \<longrightarrow>
      ((\<lambda>r. Vector3Add r (ray_step_x c)) ^^ k)
         (Vector3Add (Vector3Add (forward c) (Vector3Scale (up c) v))
            (Vector3Scale (right c) (u_start c)))
       = Vector3Add (Vector3Add (forward c) (Vector3Scale (up c) v))
           (Vector3Scale (right c) (u_start c + real k * u_step c))) \<and>
   (ray_step_x d = Vector3Scale_f32 (right d) (u_step d) \<longrightarrow>
      \<bar>vx (incremental_ray_f32 d y k) - vx (spec_closed_form_ray_f32 d y k)\<bar>
        \<le> ((1 + 1 / 2 ^ 24) ^ (k + 2) + (1 + 1 / 2 ^ 24) ^ 4 - 2)
            * (\<bar>vx (row_base_f32 d y)\<bar> + \<bar>vx (right d)\<bar> * (\<bar>u_start d\<bar> + real k * \<bar>u_step d\<bar>)) \<and>
      \<bar>vy (incremental_ray_f32 d y k) - vy (spec_closed_form_ray_f32 d y k)\<bar>
        \<le> ((1 + 1 / 2 ^ 24) ^ (k + 2) + (1 + 1 / 2 ^ 24) ^ 4 - 2)
            * (\<bar>vy (row_base_f32 d y)\<bar> + \<bar>vy (right d)\<bar> * (\<bar>u_start d\<bar> + real k * \<bar>u_step d\<bar>)) \<and>
      \<bar>vz (incremental_ray_f32 d y k) - vz (spec_closed_form_ray_f32 d y k)\<bar>
        \<le> ((1 + 1 / 2 ^ 24) ^ (k + 2) + (1 + 1 / 2 ^ 24) ^ 4 - 2)
            * (\<bar>vz (row_base_f32 d y)\<bar> + \<bar>vz (right d)\<bar> * (\<bar>u_start d\<bar> + real k * \<bar>u_step d\<bar>))) \<and>
   (k < 320 \<longrightarrow>
      (1 + 1 / 2 ^ 24) ^ (k + 2) + (1 + 1 / 2 ^ 24) ^ 4 - 2 \<le> (1 / 2 ^ 15 :: real))"
proof (intro conjI; rule impI)
  assume "c = camera_setup s"
  then show "((\<lambda>r. Vector3Add r (ray_step_x c)) ^^ k)
         (Vector3Add (Vector3Add (forward c) (Vector3Scale (up c) v))
            (Vector3Scale (right c) (u_start c)))
       = Vector3Add (Vector3Add (forward c) (Vector3Scale (up c) v))
           (Vector3Scale (right c) (u_start c + real k * u_step c))"
    by (rule incremental_ray_exact)
next
  assume r: "ray_step_x d = Vector3Scale_f32 (right d) (u_step d)"
  have s: "vx (ray_step_x d) = fmul_f32 (vx (right d)) (u_step d)"
    "vy (ray_step_x d) = fmul_f32 (vy (right d)) (u_step d)"
    "vz (ray_step_x d) = fmul_f32 (vz (right d)) (u_step d)"
    by (simp_all add: r Vector3Scale_f32_def)
  note i = incremental_ray_f32_components [of d y]
  note cf = spec_closed_form_ray_f32_components [of d y k]
  have x: "\<bar>vx (incremental_ray_f32 d y k) - vx (spec_closed_form_ray_f32 d y k)\<bar>
        \<le> ((1 + 1 / 2 ^ 24) ^ (k + 2) + (1 + 1 / 2 ^ 24) ^ 4 - 2)
            * (\<bar>vx (row_base_f32 d y)\<bar> + \<bar>vx (right d)\<bar> * (\<bar>u_start d\<bar> + real k * \<bar>u_step d\<bar>))"
    unfolding cf(1)
    by (rule component_drift [where f = "\<lambda>k. vx (incremental_ray_f32 d y k)"])
       (simp_all only: i(1) i(4) s(1))
  have y: "\<bar>vy (incremental_ray_f32 d y k) - vy (spec_closed_form_ray_f32 d y k)\<bar>
        \<le> ((1 + 1 / 2 ^ 24) ^ (k + 2) + (1 + 1 / 2 ^ 24) ^ 4 - 2)
            * (\<bar>vy (row_base_f32 d y)\<bar> + \<bar>vy (right d)\<bar> * (\<bar>u_start d\<bar> + real k * \<bar>u_step d\<bar>))"
    unfolding cf(2)
    by (rule component_drift [where f = "\<lambda>k. vy (incremental_ray_f32 d y k)"])
       (simp_all only: i(2) i(5) s(2))
  have z: "\<bar>vz (incremental_ray_f32 d y k) - vz (spec_closed_form_ray_f32 d y k)\<bar>
        \<le> ((1 + 1 / 2 ^ 24) ^ (k + 2) + (1 + 1 / 2 ^ 24) ^ 4 - 2)
            * (\<bar>vz (row_base_f32 d y)\<bar> + \<bar>vz (right d)\<bar> * (\<bar>u_start d\<bar> + real k * \<bar>u_step d\<bar>))"
    unfolding cf(3)
    by (rule component_drift [where f = "\<lambda>k. vz (incremental_ray_f32 d y k)"])
       (simp_all only: i(3) i(6) s(3))
  from x y z show "\<bar>vx (incremental_ray_f32 d y k) - vx (spec_closed_form_ray_f32 d y k)\<bar>
        \<le> ((1 + 1 / 2 ^ 24) ^ (k + 2) + (1 + 1 / 2 ^ 24) ^ 4 - 2)
            * (\<bar>vx (row_base_f32 d y)\<bar> + \<bar>vx (right d)\<bar> * (\<bar>u_start d\<bar> + real k * \<bar>u_step d\<bar>)) \<and>
      \<bar>vy (incremental_ray_f32 d y k) - vy (spec_closed_form_ray_f32 d y k)\<bar>
        \<le> ((1 + 1 / 2 ^ 24) ^ (k + 2) + (1 + 1 / 2 ^ 24) ^ 4 - 2)
            * (\<bar>vy (row_base_f32 d y)\<bar> + \<bar>vy (right d)\<bar> * (\<bar>u_start d\<bar> + real k * \<bar>u_step d\<bar>)) \<and>
      \<bar>vz (incremental_ray_f32 d y k) - vz (spec_closed_form_ray_f32 d y k)\<bar>
        \<le> ((1 + 1 / 2 ^ 24) ^ (k + 2) + (1 + 1 / 2 ^ 24) ^ 4 - 2)
            * (\<bar>vz (row_base_f32 d y)\<bar> + \<bar>vz (right d)\<bar> * (\<bar>u_start d\<bar> + real k * \<bar>u_step d\<bar>))"
    by blast
next
  assume "k < 320"
  then show "(1 + 1 / 2 ^ 24) ^ (k + 2) + (1 + 1 / 2 ^ 24) ^ 4 - 2 \<le> (1 / 2 ^ 15 :: real)"
    by (rule drift_factor_image)
qed

text \<open>Evaluation of the roundings the frozen camera's row needs.\<close>

lemma round_f32_eval:
  assumes "pow2 k \<le> \<bar>r\<bar>" "\<bar>r\<bar> < pow2 (k + 1)" "round_even (r / pow2 (k - 23)) = m"
  shows "round_f32 r = real_of_int m * pow2 (k - 23)"
  using round_f32_normal [OF assms(1,2)] assms(3) by simp

lemma fmul_f32_zero: "fmul_f32 0 b = 0"
  by (simp add: fmul_f32_def round_f32_zero)

lemma fadd_f32_zero: "fadd_f32 0 0 = 0"
  by (simp add: fadd_f32_def round_f32_zero)

lemma round_u_step: "round_f32 (6210607 / 1073741824) = 6210607 / 1073741824"
  using round_f32_eval [of "- 8" "6210607 / 1073741824" 12421214]
  by (simp add: pow2_def round_even_def)

lemma round_u_step_neg: "round_f32 (- (6210607 / 1073741824)) = - (6210607 / 1073741824)"
  using round_f32_eval [of "- 8" "- (6210607 / 1073741824)" "- 12421214"]
  by (simp add: pow2_def round_even_def)

lemma round_two_u_step: "round_f32 (6210607 / 536870912) = 6210607 / 536870912"
  using round_f32_eval [of "- 7" "6210607 / 536870912" 12421214]
  by (simp add: pow2_def round_even_def)

lemma round_u_start: "round_f32 (3869499 / 4194304) = 3869499 / 4194304"
  using round_f32_eval [of "- 1" "3869499 / 4194304" 15477996]
  by (simp add: pow2_def round_even_def)

lemma round_col1: "round_f32 (984381137 / 1073741824) = 15380955 / 16777216"
  using round_f32_eval [of "- 1" "984381137 / 1073741824" 15380955]
  by (simp add: pow2_def round_even_def)

lemma round_col2: "round_f32 (978170513 / 1073741824) = 7641957 / 8388608"
  using round_f32_eval [of "- 1" "978170513 / 1073741824" 15283914]
  by (simp add: pow2_def round_even_def)

lemma round_offset2: "round_f32 (- (489085265 / 536870912)) = - (15283915 / 16777216)"
  using round_f32_eval [of "- 1" "- (489085265 / 536870912)" "- 15283915"]
  by (simp add: pow2_def round_even_def)

lemma round_closed2: "round_f32 (15283915 / 16777216) = 15283915 / 16777216"
  using round_f32_eval [of "- 1" "15283915 / 16777216" 15283915]
  by (simp add: pow2_def round_even_def)

lemma frozen_row_base_z: "vz (row_base_f32 frozen_setup_f32 y) = 0"
  by (simp add: row_base_f32_def Let_def Vector3Add_f32_def Vector3Scale_f32_def
      frozen_setup_f32_def fmul_f32_zero fadd_f32_zero)

lemma frozen_ray_step_x:
  "ray_step_x frozen_setup_f32
   = Vector3Scale_f32 (right frozen_setup_f32) (u_step frozen_setup_f32)"
  by (simp add: frozen_setup_f32_def Vector3Scale_f32_def fmul_f32_def
      round_f32_zero round_u_step_neg)

lemma frozen_incremental_z:
  "vz (incremental_ray_f32 frozen_setup_f32 y 0) = 3869499 / 4194304"
  "vz (incremental_ray_f32 frozen_setup_f32 y (Suc 0)) = 15380955 / 16777216"
  "vz (incremental_ray_f32 frozen_setup_f32 y (Suc (Suc 0))) = 7641957 / 8388608"
proof -
  show 0: "vz (incremental_ray_f32 frozen_setup_f32 y 0) = 3869499 / 4194304"
    unfolding incremental_ray_f32_components frozen_row_base_z
    by (simp add: frozen_setup_f32_def fadd_f32_def fmul_f32_def round_u_start)
  show 1: "vz (incremental_ray_f32 frozen_setup_f32 y (Suc 0)) = 15380955 / 16777216"
    unfolding incremental_ray_f32_components(6) 0
    by (simp add: frozen_setup_f32_def fadd_f32_def round_col1)
  show "vz (incremental_ray_f32 frozen_setup_f32 y (Suc (Suc 0))) = 7641957 / 8388608"
    unfolding incremental_ray_f32_components(6) [of _ _ "Suc 0"] 1
    by (simp add: frozen_setup_f32_def fadd_f32_def round_col2)
qed

lemma frozen_closed_form_z:
  "vz (spec_closed_form_ray_f32 frozen_setup_f32 y 2) = 15283915 / 16777216"
  unfolding spec_closed_form_ray_f32_components frozen_row_base_z
  by (simp add: frozen_setup_f32_def fadd_f32_def fmul_f32_def round_two_u_step
      round_offset2 round_closed2)

text \<open>
  The claim as stated fails in the arithmetic of the code: for the frozen camera the z
  component of the ray at column 2 is \<open>15283914 / 2^24\<close> by the incremental scheme and
  \<open>15283915 / 2^24\<close> by the closed form.
\<close>

theorem incremental_ray_counterexample:
  "ray_step_x frozen_setup_f32
     = Vector3Scale_f32 (right frozen_setup_f32) (u_step frozen_setup_f32) \<and>
   vz (incremental_ray_f32 frozen_setup_f32 0 2) = 15283914 / 16777216 \<and>
   vz (spec_closed_form_ray_f32 frozen_setup_f32 0 2) = 15283915 / 16777216 \<and>
   incremental_ray_f32 frozen_setup_f32 0 2 \<noteq> spec_closed_form_ray_f32 frozen_setup_f32 0 2"
proof -
  have a: "vz (incremental_ray_f32 frozen_setup_f32 0 2) = 15283914 / 16777216"
    using frozen_incremental_z(3) [of 0] by (simp add: numeral_2_eq_2)
  have b: "vz (spec_closed_form_ray_f32 frozen_setup_f32 0 2) = 15283915 / 16777216"
    by (rule frozen_closed_form_z)
  have "vz (incremental_ray_f32 frozen_setup_f32 0 2)
        \<noteq> vz (spec_closed_form_ray_f32 frozen_setup_f32 0 2)"
    unfolding a b by simp
  then have "incremental_ray_f32 frozen_setup_f32 0 2 \<noteq> spec_closed_form_ray_f32 frozen_setup_f32 0 2"
    by auto
  with a b frozen_ray_step_x show ?thesis by blast
qed

text \<open>
  The instance: the frozen camera, row 0, column 2. The exact rays agree, and the
  single-precision rays differ by \<open>2^-24\<close>, inside the tolerance.
\<close>

theorem incremental_ray_tolerance_witness:
  "((\<lambda>r. Vector3Add r (ray_step_x (camera_setup frozen_state))) ^^ 2)
      (Vector3Add (Vector3Add (forward (camera_setup frozen_state))
                     (Vector3Scale (up (camera_setup frozen_state)) 0))
         (Vector3Scale (right (camera_setup frozen_state)) (u_start (camera_setup frozen_state))))
    = Vector3Add (Vector3Add (forward (camera_setup frozen_state))
                    (Vector3Scale (up (camera_setup frozen_state)) 0))
        (Vector3Scale (right (camera_setup frozen_state))
           (u_start (camera_setup frozen_state) + real 2 * u_step (camera_setup frozen_state))) \<and>
   ray_step_x frozen_setup_f32
     = Vector3Scale_f32 (right frozen_setup_f32) (u_step frozen_setup_f32) \<and>
   \<bar>vz (incremental_ray_f32 frozen_setup_f32 0 2) - vz (spec_closed_form_ray_f32 frozen_setup_f32 0 2)\<bar>
     \<le> ((1 + 1 / 2 ^ 24) ^ (2 + 2) + (1 + 1 / 2 ^ 24) ^ 4 - 2)
         * (\<bar>vz (row_base_f32 frozen_setup_f32 0)\<bar>
            + \<bar>vz (right frozen_setup_f32)\<bar>
              * (\<bar>u_start frozen_setup_f32\<bar> + real 2 * \<bar>u_step frozen_setup_f32\<bar>)) \<and>
   \<bar>vz (incremental_ray_f32 frozen_setup_f32 0 2) - vz (spec_closed_form_ray_f32 frozen_setup_f32 0 2)\<bar>
     = 1 / 16777216 \<and>
   (2 :: nat) < 320 \<and>
   (1 + 1 / 2 ^ 24) ^ (2 + 2) + (1 + 1 / 2 ^ 24) ^ 4 - 2 \<le> (1 / 2 ^ 15 :: real)"
proof -
  note e = incremental_ray_tolerance [where c = "camera_setup frozen_state" and s = frozen_state
      and k = 2 and v = 0 and d = frozen_setup_f32 and y = 0]
  have 1: "((\<lambda>r. Vector3Add r (ray_step_x (camera_setup frozen_state))) ^^ 2)
      (Vector3Add (Vector3Add (forward (camera_setup frozen_state))
                     (Vector3Scale (up (camera_setup frozen_state)) 0))
         (Vector3Scale (right (camera_setup frozen_state)) (u_start (camera_setup frozen_state))))
    = Vector3Add (Vector3Add (forward (camera_setup frozen_state))
                    (Vector3Scale (up (camera_setup frozen_state)) 0))
        (Vector3Scale (right (camera_setup frozen_state))
           (u_start (camera_setup frozen_state) + real 2 * u_step (camera_setup frozen_state)))"
    using e by blast
  have 2: "\<bar>vz (incremental_ray_f32 frozen_setup_f32 0 2) - vz (spec_closed_form_ray_f32 frozen_setup_f32 0 2)\<bar>
     \<le> ((1 + 1 / 2 ^ 24) ^ (2 + 2) + (1 + 1 / 2 ^ 24) ^ 4 - 2)
         * (\<bar>vz (row_base_f32 frozen_setup_f32 0)\<bar>
            + \<bar>vz (right frozen_setup_f32)\<bar>
              * (\<bar>u_start frozen_setup_f32\<bar> + real 2 * \<bar>u_step frozen_setup_f32\<bar>))"
    using e frozen_ray_step_x by blast
  have a: "vz (incremental_ray_f32 frozen_setup_f32 0 2) = 7641957 / 8388608"
    using frozen_incremental_z(3) [of 0] by (simp add: numeral_2_eq_2)
  have 3: "\<bar>vz (incremental_ray_f32 frozen_setup_f32 0 2) - vz (spec_closed_form_ray_f32 frozen_setup_f32 0 2)\<bar>
     = 1 / 16777216"
    unfolding a frozen_closed_form_z by simp
  have 4: "(2 :: nat) < 320" by simp
  have 5: "(1 + 1 / 2 ^ 24) ^ (2 + 2) + (1 + 1 / 2 ^ 24) ^ 4 - 2 \<le> (1 / 2 ^ 15 :: real)"
    using e 4 by blast
  from 1 frozen_ray_step_x 2 3 4 5 show ?thesis by blast
qed

end
